theory Spec2Isabelle
  imports Main "HOL-Library.AList" "HOL-Library.Sublist"
begin

section \<open>JavaScript values read from the JSON resources\<close>

text \<open>
  A parsed JSON document is a JavaScript value: null, a boolean, a number, a string, an
  array or an object. Reading a property that is not there gives \<open>undefined\<close>, so the
  value type has it too. An object is the list of its own properties in insertion order.
  The numbers of the data files are only interpolated or tested for truthiness by the
  loader, so an integer payload stands for them (\<open>0\<close> is the falsy number).
\<close>

datatype js =
    Undefined
  | Null
  | JBool bool
  | JNum int
  | JStr string
  | JArr "js list"
  | JObj "(string \<times> js) list"

text \<open>What the loader can throw: a \<open>TypeError\<close> of the language itself, or an exception
  that escapes from a call whose body is not part of the dispatcher.\<close>

datatype error = TypeError | CalleeThrew string

text \<open>
  \<open>base.key\<close>. Reading from \<open>undefined\<close> or \<open>null\<close> throws a \<open>TypeError\<close>; an object
  gives its own property or \<open>undefined\<close>. The keys the loader reads from the data
  (\<open>site\<close>, \<open>navigation\<close>, \<open>main_menu\<close>, \<open>label\<close>, \<open>assets\<close>, ...) are not
  properties of the string, number, boolean or array prototypes, so reading them from
  such a value gives \<open>undefined\<close>. (The one exception is \<open>link\<close>, which
  \<open>renderAbout\<close> reads from the elements of the key-point lists: on a string element
  it is a method of the prototype. The value read there is only interpolated into the
  markup, which the model does not spell out.)
\<close>

fun get_prop :: "js \<Rightarrow> string \<Rightarrow> error + js" where
  "get_prop Undefined key = Inl TypeError"
| "get_prop Null key = Inl TypeError"
| "get_prop (JObj kvs) key = (case map_of kvs key of Some v \<Rightarrow> Inr v | None \<Rightarrow> Inr Undefined)"
| "get_prop v key = Inr Undefined"

text \<open>The truthiness test of \<open>if (x)\<close>, \<open>!x\<close>, \<open>a && b\<close>.\<close>

fun truthy :: "js \<Rightarrow> bool" where
  "truthy Undefined = False"
| "truthy Null = False"
| "truthy (JBool b) = b"
| "truthy (JNum n) = (n \<noteq> 0)"
| "truthy (JStr s) = (s \<noteq> [])"
| "truthy (JArr xs) = True"
| "truthy (JObj kvs) = True"

section \<open>Strings\<close>

text \<open>\<open>s.replace(pat, rep)\<close> with a string pattern: the first occurrence only.\<close>

fun replace_first :: "string \<Rightarrow> string \<Rightarrow> string \<Rightarrow> string" where
  "replace_first pat rep [] = (if pat = [] then rep else [])"
| "replace_first pat rep (c # cs) =
     (if prefix pat (c # cs) then rep @ drop (length pat) (c # cs)
      else c # replace_first pat rep cs)"

text \<open>\<open>s.lastIndexOf(c)\<close>: the index of the last occurrence, \<open>-1\<close> when there is none.\<close>

fun lastIndexOf :: "string \<Rightarrow> char \<Rightarrow> int" where
  "lastIndexOf [] c = -1"
| "lastIndexOf (x # xs) c =
     (let r = lastIndexOf xs c in
      if 0 \<le> r then r + 1 else if x = c then 0 else -1)"

text \<open>\<open>s.substring(start)\<close>: a negative start counts as \<open>0\<close>.\<close>

definition substring :: "string \<Rightarrow> int \<Rightarrow> string" where
  "substring s start = drop (nat start) s"

section \<open>Configuration\<close>

definition BASE_DATA_PATH :: string where
  "BASE_DATA_PATH = ''./assets/data/''"

definition JSON_FILES :: "string list" where
  "JSON_FILES =
    [''personal_info.json'',
     ''site.json'',
     ''key_metrics.json'',
     ''education.json'',
     ''professional_experience.json'',
     ''expertise_achievements.json'',
     ''skills.json'',
     ''honors_awards.json'',
     ''courses_trainings_certificates.json'',
     ''projects.json'',
     ''memberships.json'',
     ''sessions_events.json'',
     ''languages.json'',
     ''portfolios.json'',
     ''volunteerings.json'',
     ''publications.json'']"

text \<open>\<open>SITE_DATA\<close>: the own properties of the global object, in insertion order.
  \<open>SITE_DATA[k] = v\<close> is \<open>AList.update k v\<close>: an existing key keeps its place, a new
  one goes last.\<close>

type_synonym store = "(string \<times> js) list"

section \<open>What the loader does to the page and the console\<close>

datatype hook = InitTypedAnimation | InitAOS | InitPureCounter

text \<open>
  The observable steps of a page load, in the order they happen. The markup that a
  template builds from the data is not spelled out: \<open>SetInnerHTML\<close> carries the text
  where the source assigns a literal, and \<open>Write\<close> names the element (by the selector
  that finds it) whose text, markup or attribute is set from the data. A console step
  carries the message text. \<open>Call\<close> is a call of a function of the loader with its
  argument values; what the function called does to the page or prints is not part of
  the trace of its caller.
\<close>

datatype effect =
    ConsoleLog string
  | ConsoleWarn string
  | ConsoleError string
  | SetInnerHTML string string
  | Write string
  | Call string "js list"
  | HookCall hook

text \<open>The names of the functions called, in order, and the console output, in order.\<close>

fun calls_of :: "effect list \<Rightarrow> string list" where
  "calls_of [] = []"
| "calls_of (Call name args # evs) = name # calls_of evs"
| "calls_of (ev # evs) = calls_of evs"

fun console_of :: "effect list \<Rightarrow> effect list" where
  "console_of [] = []"
| "console_of (ConsoleLog m # evs) = ConsoleLog m # console_of evs"
| "console_of (ConsoleWarn m # evs) = ConsoleWarn m # console_of evs"
| "console_of (ConsoleError m # evs) = ConsoleError m # console_of evs"
| "console_of (ev # evs) = console_of evs"

section \<open>The data fetcher\<close>

text \<open>How the promise chain of one file ends: \<open>fetch\<close> rejects, the response is not
  \<open>ok\<close>, \<open>response.json()\<close> rejects, or the body parses to a value.\<close>

datatype fetch_result = NetworkError | NotOk | InvalidJson | Parsed js

text \<open>\<open>fileName.replace('.json', '')\<close>.\<close>

definition baseName :: "string \<Rightarrow> string" where
  "baseName fileName = replace_first ''.json'' [] fileName"

text \<open>
  The sixteen chains are started together and settle in some order, \<open>order\<close>, a
  rearrangement of \<open>JSON_FILES\<close>. A chain that ends in a value stores it under the
  base name at once; the first chain that fails rejects \<open>Promise.all\<close>, and
  \<open>loadAllData\<close> goes on from there with the store as it then is (the chains that
  settle later store their values after the dispatcher has run). The flag says whether
  every chain of \<open>order\<close> ended in a value.
\<close>

fun settle_all :: "(string \<Rightarrow> fetch_result) \<Rightarrow> string list \<Rightarrow> store \<Rightarrow> store \<times> bool" where
  "settle_all fetch [] sd = (sd, True)"
| "settle_all fetch (fileName # rest) sd =
     (case fetch (BASE_DATA_PATH @ fileName) of
        Parsed d \<Rightarrow>
          settle_all fetch rest (AList.update (baseName fileName) d sd)
      | NetworkError \<Rightarrow> (sd, False)
      | NotOk \<Rightarrow> (sd, False)
      | InvalidJson \<Rightarrow> (sd, False))"

definition error_notice :: string where
  "error_notice = ''<h1>Error loading site data. Please check console.</h1>''"

definition loadAllData ::
  "(string \<Rightarrow> fetch_result) \<Rightarrow> string list \<Rightarrow> store \<Rightarrow> store \<times> effect list" where
  "loadAllData fetch order sd =
     (case settle_all fetch order sd of
        (sd', ok) \<Rightarrow>
          if ok
          then (sd', [ConsoleLog ''Starting data loading...'',
                      ConsoleLog ''All core data loaded successfully.''])
          else (sd', [ConsoleLog ''Starting data loading...'',
                      ConsoleError ''Error during data loading:'',
                      SetInnerHTML ''document.body'' error_notice]))"

text \<open>The store when every chain of \<open>order\<close> ends in a value, \<open>d f\<close> for the file
  \<open>f\<close>: each is stored under its base name, in the order the chains settle.\<close>

definition store_all :: "(string \<Rightarrow> js) \<Rightarrow> string list \<Rightarrow> store \<Rightarrow> store" where
  "store_all d order sd = foldl (\<lambda>s f. AList.update (baseName f) (d f) s) sd order"

section \<open>The page dispatcher\<close>

text \<open>
  What the page supplies to one run of the dispatcher: which of the three
  re-initialisation hooks are functions of the global environment, and, for every call
  the dispatcher makes, whether that call returns or lets an exception escape (a render
  call can throw, depending on the markup of the page and on the data; see
  \<open>renderHeader\<close>, \<open>renderHero\<close> and \<open>renderAbout\<close> below).
\<close>

record env =
  hook_defined :: "hook \<Rightarrow> bool"
  hook_throws :: "hook \<Rightarrow> bool"
  call_throws :: "string \<Rightarrow> js list \<Rightarrow> bool"

fun hook_name :: "hook \<Rightarrow> string" where
  "hook_name InitTypedAnimation = ''initTypedAnimation''"
| "hook_name InitAOS = ''initAOS''"
| "hook_name InitPureCounter = ''initPureCounter''"

fun throws :: "env \<Rightarrow> effect \<Rightarrow> error option" where
  "throws e (Call name args) =
     (if call_throws e name args then Some (CalleeThrew name) else None)"
| "throws e (HookCall h) =
     (if hook_throws e h then Some (CalleeThrew (hook_name h)) else None)"
| "throws e (ConsoleLog m) = None"
| "throws e (ConsoleWarn m) = None"
| "throws e (ConsoleError m) = None"
| "throws e (SetInnerHTML t m) = None"
| "throws e (Write t) = None"

text \<open>
  A statement list runs in order. A statement whose argument expressions throw is
  \<open>Inl\<close>; otherwise it is the step it performs. The first exception ends the run; the
  steps up to and including a call that threw are in the trace.
\<close>

fun run_steps :: "env \<Rightarrow> (error + effect) list \<Rightarrow> effect list \<times> error option" where
  "run_steps e [] = ([], None)"
| "run_steps e (Inl err # rest) = ([], Some err)"
| "run_steps e (Inr ev # rest) =
     (case throws e ev of
        Some err \<Rightarrow> ([ev], Some err)
      | None \<Rightarrow> (case run_steps e rest of (evs, r) \<Rightarrow> (ev # evs, r)))"

text \<open>\<open>SITE_DATA.key\<close>: never throws, \<open>undefined\<close> for a key that is not there.\<close>

definition data :: "store \<Rightarrow> string \<Rightarrow> js" where
  "data sd key = (case map_of sd key of Some v \<Rightarrow> v | None \<Rightarrow> Undefined)"

text \<open>\<open>SITE_DATA.site.key\<close>.\<close>

definition site_prop :: "store \<Rightarrow> string \<Rightarrow> error + js" where
  "site_prop sd key = get_prop (data sd ''site'') key"

text \<open>\<open>pathName.substring(pathName.lastIndexOf('/') + 1)\<close>.\<close>

definition final_segment :: "string \<Rightarrow> string" where
  "final_segment pathName = substring pathName (lastIndexOf pathName (CHR ''/'') + 1)"

definition mainPages :: "string list" where
  "mainPages = [''index.html'', [], ''printable_cv.html'']"

subsection \<open>Menu selection\<close>

text \<open>The callback \<open>item => item.label.startsWith('Home')\<close>: a \<open>TypeError\<close> when the
  item is \<open>null\<close> or its label is not a string.\<close>

definition label_starts_with_Home :: "js \<Rightarrow> error + bool" where
  "label_starts_with_Home item =
     (case get_prop item ''label'' of
        Inl err \<Rightarrow> Inl err
      | Inr l \<Rightarrow> (case l of JStr s \<Rightarrow> Inr (prefix ''Home'' s) | _ \<Rightarrow> Inl TypeError))"

text \<open>\<open>menuToRender.find(...)\<close> over the elements of the array: the position of the
  first element the callback accepts. The source holds a reference to that element.\<close>

fun find_home :: "js list \<Rightarrow> error + nat option" where
  "find_home [] = Inr None"
| "find_home (item # rest) =
     (case label_starts_with_Home item of
        Inl err \<Rightarrow> Inl err
      | Inr found \<Rightarrow>
          if found then Inr (Some 0)
          else (case find_home rest of
                  Inl err \<Rightarrow> Inl err
                | Inr None \<Rightarrow> Inr None
                | Inr (Some i) \<Rightarrow> Inr (Some (Suc i))))"

text \<open>\<open>base.key = v\<close> on an object: an existing property is overwritten in place, a
  new one is added last. (Every base this is applied to below is an object.)\<close>

fun set_prop :: "js \<Rightarrow> string \<Rightarrow> js \<Rightarrow> js" where
  "set_prop (JObj kvs) key v = JObj (AList.update key v kvs)"
| "set_prop b key v = b"

definition home_target :: js where
  "home_target = JStr ''./index.html#about''"

text \<open>
  The first block of the dispatcher: the menu to render and the store after it. On
  \<open>printable_cv.html\<close> the entry found is an object inside
  \<open>SITE_DATA.site.navigation.main_menu\<close>, so the assignment to its \<open>url\<close> changes the
  store; the menu handed to \<open>renderNavigation\<close> is that same, changed array.
\<close>

definition select_menu :: "string \<Rightarrow> store \<Rightarrow> error + (store \<times> js)" where
  "select_menu fileName sd =
     (if fileName \<in> set mainPages then
        (case site_prop sd ''navigation'' of
           Inl err \<Rightarrow> Inl err
         | Inr nav \<Rightarrow>
             (case get_prop nav ''main_menu'' of
                Inl err \<Rightarrow> Inl err
              | Inr menuToRender \<Rightarrow>
                  if fileName = ''printable_cv.html'' then
                    (case menuToRender of
                       JArr items \<Rightarrow>
                         (case find_home items of
                            Inl err \<Rightarrow> Inl err
                          | Inr None \<Rightarrow> Inr (sd, menuToRender)
                          | Inr (Some i) \<Rightarrow>
                              (let menu' = JArr (items[i := set_prop (items ! i) ''url'' home_target]);
                                   nav' = set_prop nav ''main_menu'' menu';
                                   site' = set_prop (data sd ''site'') ''navigation'' nav'
                               in Inr (AList.update ''site'' site' sd, menu')))
                     | _ \<Rightarrow> Inl TypeError)
                  else Inr (sd, menuToRender)))
      else
        (case site_prop sd ''navigation'' of
           Inl err \<Rightarrow> Inl err
         | Inr nav \<Rightarrow>
             (case get_prop nav ''details_menu'' of
                Inl err \<Rightarrow> Inl err
              | Inr menuToRender \<Rightarrow> Inr (sd, menuToRender))))"

subsection \<open>The render calls\<close>

definition call1 :: "string \<Rightarrow> js \<Rightarrow> error + effect" where
  "call1 name a = Inr (Call name [a])"

text \<open>A call whose arguments are read from \<open>SITE_DATA.site\<close>: they are evaluated from
  left to right, and the call is made when none of them threw.\<close>

fun call_site :: "string \<Rightarrow> (error + js) list \<Rightarrow> js list \<Rightarrow> error + effect" where
  "call_site name [] done = Inr (Call name (rev done))"
| "call_site name (Inl err # rest) done = Inl err"
| "call_site name (Inr v # rest) done = call_site name rest (v # done)"

definition common_calls :: "store \<Rightarrow> js \<Rightarrow> (error + effect) list" where
  "common_calls sd menuToRender =
    [call_site ''updateDocumentMetadata'' [site_prop sd ''site_info''] [],
     call_site ''renderHeader'' [Inr (data sd ''personal_info''), Inr (data sd ''site'')] [],
     call_site ''renderMenuFooter'' [site_prop sd ''footer_meta'', site_prop sd ''assets''] [],
     call_site ''renderPageFooter'' [site_prop sd ''footer_meta''] [],
     call1 ''renderNavigation'' (JObj [(''main_menu'', menuToRender)]),
     Inr (Call ''renderNavDropdowns'' [])]"

definition cv_sections :: "store \<Rightarrow> (error + effect) list" where
  "cv_sections sd =
    [call1 ''renderAboutCV'' (data sd ''personal_info''),
     call1 ''renderKeyMetricsCV'' (data sd ''key_metrics''),
     call1 ''renderEducationsCV'' (data sd ''education''),
     call1 ''renderProfessionalExperiencesCV'' (data sd ''professional_experience''),
     call1 ''renderExpertiseAndAchievementsCV'' (data sd ''expertise_achievements''),
     call1 ''renderSkillsToolsCV'' (data sd ''skills''),
     call1 ''renderHonorsAwardsCV'' (data sd ''honors_awards''),
     call1 ''renderCoursesTrainingsCertificatesCV'' (data sd ''courses_trainings_certificates''),
     call1 ''renderProjectsCV'' (data sd ''projects''),
     call1 ''renderMembershipsCV'' (data sd ''memberships''),
     call1 ''renderSessionsEventsCV'' (data sd ''sessions_events''),
     call1 ''renderLanguagesCV'' (data sd ''languages''),
     call1 ''renderPortfoliosCV'' (data sd ''portfolios''),
     call1 ''renderVolunteeringsCV'' (data sd ''volunteerings''),
     call1 ''renderPublicationsCV'' (data sd ''publications'')]"

definition index_sections :: "store \<Rightarrow> (error + effect) list" where
  "index_sections sd =
    [call1 ''renderHero'' (data sd ''personal_info''),
     call1 ''renderAbout'' (data sd ''personal_info''),
     call1 ''renderKeyMetrics'' (data sd ''key_metrics''),
     call1 ''renderEducations'' (data sd ''education''),
     call1 ''renderProfessionalExperiences'' (data sd ''professional_experience''),
     call1 ''renderExpertiseAndAchievements'' (data sd ''expertise_achievements''),
     call1 ''renderSkillsTools'' (data sd ''skills''),
     call1 ''renderHonorsAwards'' (data sd ''honors_awards''),
     call1 ''renderCoursesTrainingsCertificates'' (data sd ''courses_trainings_certificates''),
     call1 ''renderProjects'' (data sd ''projects''),
     call1 ''renderMemberships'' (data sd ''memberships''),
     call1 ''renderSessionsEvents'' (data sd ''sessions_events''),
     call1 ''renderLanguages'' (data sd ''languages''),
     call1 ''renderPortfolios'' (data sd ''portfolios''),
     call1 ''renderVolunteerings'' (data sd ''volunteerings''),
     call1 ''renderPublications'' (data sd ''publications'')]"

text \<open>The chain of comparisons of the file name that picks the section calls.\<close>

definition page_sections :: "string \<Rightarrow> store \<Rightarrow> (error + effect) list" where
  "page_sections fileName sd =
    (if fileName = ''printable_cv.html'' then cv_sections sd
     else if fileName = ''skillsAndTools-details.html'' then
       [call1 ''renderSkillsToolsDetails'' (data sd ''skills'')]
     else if fileName = ''honorsAndAwards-details.html'' then
       [call1 ''renderHonorsAwardsDetails'' (data sd ''honors_awards'')]
     else if fileName = ''coursesTrainingsAndCertificates-details.html'' then
       [call1 ''renderCoursesTrainingsCertificatesDetails''
          (data sd ''courses_trainings_certificates'')]
     else if fileName = ''projects-details.html'' then
       [call1 ''renderProjectsDetails'' (data sd ''projects'')]
     else if fileName = ''memberships-details.html'' then
       [call1 ''renderMembershipsDetails'' (data sd ''memberships'')]
     else if fileName = ''sessionsAndEvents-details.html'' then
       [call1 ''renderSessionsEventsDetails'' (data sd ''sessions_events'')]
     else if fileName = ''languages-details.html'' then
       [call1 ''renderLanguagesDetails'' (data sd ''languages'')]
     else if fileName = ''portfolios-details.html'' then
       [call1 ''renderPortfoliosDetails'' (data sd ''portfolios'')]
     else if fileName = ''volunteerings-details.html'' then
       [call1 ''renderVolunteeringsDetails'' (data sd ''volunteerings'')]
     else if fileName = ''publications-details.html'' then
       (if truthy (data sd ''publications'')
        then [call1 ''renderPublicationsDetails'' (data sd ''publications'')]
        else [])
     else index_sections sd)"

subsection \<open>Re-initialising the libraries\<close>

definition typed_found :: string where
  "typed_found =
    ''initTypedAnimation found! Rendering dynamic items on the site with loaded data...''"

definition typed_not_found :: string where
  "typed_not_found = ''initTypedAnimation not found! ''"

definition typed_warning :: string where
  "typed_warning =
    ''initTypedAnimation not found. Ensure main.js is loaded and includes this global function.''"

definition reinit_libraries :: "env \<Rightarrow> (error + effect) list" where
  "reinit_libraries e =
    (if hook_defined e InitTypedAnimation
     then [Inr (ConsoleLog typed_found), Inr (HookCall InitTypedAnimation)]
     else [Inr (ConsoleLog typed_not_found), Inr (ConsoleWarn typed_warning)])
    @ (if hook_defined e InitAOS then [Inr (HookCall InitAOS)] else [])
    @ (if hook_defined e InitPureCounter then [Inr (HookCall InitPureCounter)] else [])"

subsection \<open>initializeSite\<close>

record outcome =
  final_store :: store
  trace :: "effect list"
  thrown :: "error option"

text \<open>The body of \<open>if (Object.keys(SITE_DATA).length > 0)\<close>.\<close>

definition render_phase :: "env \<Rightarrow> string \<Rightarrow> store \<Rightarrow> outcome" where
  "render_phase e pathName sd =
    (let fileName = final_segment pathName in
     case select_menu fileName sd of
       Inl err \<Rightarrow>
         \<lparr>final_store = sd,
          trace = [ConsoleLog ''Rendering site with loaded data...''],
          thrown = Some err\<rparr>
     | Inr (sd', menuToRender) \<Rightarrow>
         (case run_steps e
                 (common_calls sd' menuToRender
                  @ page_sections fileName sd'
                  @ reinit_libraries e
                  @ [Inr (ConsoleLog ''Dynamic rendering complete.'')]) of
            (evs, r) \<Rightarrow>
              \<lparr>final_store = sd',
               trace = ConsoleLog ''Rendering site with loaded data...'' # evs,
               thrown = r\<rparr>))"

text \<open>
  One page load. \<open>SITE_DATA\<close> starts as the empty object; \<open>fetch\<close> says how the chain
  of each address ends and \<open>order\<close> is the order in which the chains settle.
\<close>

definition initializeSite ::
  "env \<Rightarrow> (string \<Rightarrow> fetch_result) \<Rightarrow> string list \<Rightarrow> string \<Rightarrow> outcome" where
  "initializeSite e fetch order pathName =
    (case loadAllData fetch order [] of
       (sd, evs) \<Rightarrow>
         if 0 < length (map fst sd)
         then (let r = render_phase e pathName sd in r\<lparr>trace := evs @ trace r\<rparr>)
         else \<lparr>final_store = sd, trace = evs, thrown = None\<rparr>)"

section \<open>Three section renderers\<close>

text \<open>
  A renderer looks elements up in the page and writes to those it finds. What it
  needs of the page is whether each lookup finds an element, at the moment the lookup is
  made; a record of these answers stands for the page. The result is the list of writes
  made and the exception that ended the call, if one did.
\<close>

type_synonym run = "effect list \<times> error option"

definition skip :: run where
  "skip = ([], None)"

definition raise :: "error \<Rightarrow> run" where
  "raise err = ([], Some err)"

text \<open>Two statements in a row: the second runs when the first did not throw.\<close>

definition then_do :: "run \<Rightarrow> run \<Rightarrow> run" where
  "then_do r k =
     (case r of
        (evs, Some err) \<Rightarrow> (evs, Some err)
      | (evs, None) \<Rightarrow> (case k of (evs', r') \<Rightarrow> (evs @ evs', r')))"

text \<open>\<open>element.property = ... the values read ...\<close>: the reads come first, from left to
  right, and one that throws ends the statement before the write.\<close>

fun write_from :: "string \<Rightarrow> (error + js) list \<Rightarrow> run" where
  "write_from target [] = ([Write target], None)"
| "write_from target (Inl err # reads) = ([], Some err)"
| "write_from target (Inr v # reads) = write_from target reads"

text \<open>A callback run over the elements of an array, as \<open>map\<close> and \<open>filter\<close> do: the
  results in order, or the first exception.\<close>

fun each_item :: "(js \<Rightarrow> error + 'a) \<Rightarrow> js list \<Rightarrow> error + 'a list" where
  "each_item f [] = Inr []"
| "each_item f (x # xs) =
     (case f x of
        Inl err \<Rightarrow> Inl err
      | Inr y \<Rightarrow> (case each_item f xs of Inl err \<Rightarrow> Inl err | Inr ys \<Rightarrow> Inr (y # ys)))"

text \<open>\<open>v.map(f)\<close>, \<open>v.filter(f)\<close>: a \<open>TypeError\<close> unless \<open>v\<close> is an array (no other
  JSON value has these methods).\<close>

definition array_items :: "js \<Rightarrow> error + js list" where
  "array_items v = (case v of JArr items \<Rightarrow> Inr items | _ \<Rightarrow> Inl TypeError)"

subsection \<open>renderHeader\<close>

record header_page =
  hdr_sitename :: bool
  hdr_profile_img :: bool
  hdr_logo_img :: bool
  hdr_social_links :: bool

text \<open>The filter callback on a social link: the three platform names that are left out.\<close>

definition keep_link :: "js \<Rightarrow> error + bool" where
  "keep_link link =
     (case get_prop link ''platform'' of
        Inl err \<Rightarrow> Inl err
      | Inr p \<Rightarrow> Inr (p \<noteq> JStr ''google-old'' \<and> p \<noteq> JStr ''researchgate-old''
                       \<and> p \<noteq> JStr ''researchgate-fab''))"

text \<open>The map callback on a social link: the three properties its template reads.\<close>

definition link_markup :: "js \<Rightarrow> error + unit" where
  "link_markup link =
     (case get_prop link ''url'' of
        Inl err \<Rightarrow> Inl err
      | Inr u \<Rightarrow>
          (case get_prop link ''platform'' of
             Inl err \<Rightarrow> Inl err
           | Inr p \<Rightarrow>
               (case get_prop link ''icon_class'' of
                  Inl err \<Rightarrow> Inl err
                | Inr c \<Rightarrow> Inr ())))"

definition social_links_markup :: "js \<Rightarrow> error + unit" where
  "social_links_markup links =
     (case array_items links of
        Inl err \<Rightarrow> Inl err
      | Inr items \<Rightarrow>
          (case each_item keep_link items of
             Inl err \<Rightarrow> Inl err
           | Inr keeps \<Rightarrow>
               (case each_item link_markup (map fst (filter snd (zip items keeps))) of
                  Inl err \<Rightarrow> Inl err
                | Inr ms \<Rightarrow> Inr ())))"

definition renderHeader :: "header_page \<Rightarrow> js \<Rightarrow> js \<Rightarrow> run" where
  "renderHeader page personalInfo siteData =
     (if truthy personalInfo \<and> truthy siteData then
        then_do
          (if hdr_sitename page
           then write_from ''#header .sitename'' [get_prop personalInfo ''name'']
           else skip)
          (case get_prop siteData ''assets'' of
             Inl err \<Rightarrow> raise err
           | Inr assets \<Rightarrow>
          (case get_prop assets ''images'' of
             Inl err \<Rightarrow> raise err
           | Inr imageAssets \<Rightarrow>
          (case get_prop assets ''icons'' of
             Inl err \<Rightarrow> raise err
           | Inr iconAssets \<Rightarrow>
               then_do
                 (if hdr_profile_img page
                  then write_from ''#header .profile-img img''
                         [get_prop imageAssets ''profile_image_pp'']
                  else skip)
              (then_do
                 (if hdr_logo_img page
                  then write_from ''#header .logo img'' [get_prop iconAssets ''logo_png'']
                  else skip)
                 (if hdr_social_links page then
                    (case get_prop siteData ''social_links'' of
                       Inl err \<Rightarrow> raise err
                     | Inr links \<Rightarrow>
                         if truthy links then
                           (case social_links_markup links of
                              Inl err \<Rightarrow> raise err
                            | Inr m \<Rightarrow> ([Write ''#header .social-links''], None))
                         else skip)
                  else skip)))))
      else skip)"

subsection \<open>renderHero\<close>

text \<open>\<open>hero_paragraphs\<close> is the length of \<open>hero.querySelectorAll('p')\<close>.\<close>

record hero_page =
  hero_section :: bool
  hero_h2 :: bool
  hero_typed :: bool
  hero_paragraphs :: nat

definition renderHero :: "hero_page \<Rightarrow> js \<Rightarrow> run" where
  "renderHero page personalInfo =
     (if hero_section page \<and> truthy personalInfo then
        (case get_prop personalInfo ''hero'' of
           Inl err \<Rightarrow> raise err
         | Inr heroData \<Rightarrow>
             if truthy heroData then
               then_do
                 (if hero_h2 page
                  then write_from ''#hero h2'' [get_prop heroData ''title_main'']
                  else raise TypeError)
              (then_do
                 (if hero_typed page
                  then write_from ''#hero p:nth-of-type(1) .typed''
                         [get_prop heroData ''typed_items'']
                  else skip)
              (then_do
                 (if 2 \<le> hero_paragraphs page
                  then write_from ''#hero p [1]'' [get_prop heroData ''title_researcher'']
                  else skip)
                 (if 3 \<le> hero_paragraphs page
                  then write_from ''#hero p [2]''
                         [get_prop heroData ''title_institute_primary'',
                          get_prop heroData ''title_institute_secondary'',
                          get_prop heroData ''tagline'']
                  else skip)))
             else skip)
      else skip)"

subsection \<open>renderAbout\<close>

text \<open>\<open>about_full_title\<close> and \<open>about_full_content\<close> say whether the second title
  container exists and holds an \<open>h2\<close>, a \<open>p\<close>.\<close>

record about_page =
  about_section :: bool
  about_profile_img :: bool
  about_summary :: bool
  about_title_h2 :: bool
  about_intro_p :: bool
  about_left_list :: bool
  about_right_list :: bool
  about_research_area :: bool
  about_full_title :: bool
  about_full_content :: bool

text \<open>The callback of the two key-point lists.\<close>

definition key_point_markup :: "js \<Rightarrow> error + unit" where
  "key_point_markup item =
     (case get_prop item ''icon_class'' of
        Inl err \<Rightarrow> Inl err
      | Inr c \<Rightarrow>
          (case get_prop item ''strong'' of
             Inl err \<Rightarrow> Inl err
           | Inr s \<Rightarrow>
               (case get_prop item ''link'' of
                  Inl err \<Rightarrow> Inl err
                | Inr l \<Rightarrow>
                    (case get_prop item ''text'' of
                       Inl err \<Rightarrow> Inl err
                     | Inr t \<Rightarrow> Inr ()))))"

text \<open>\<open>list.innerHTML = summaryData.key.map(...).join('')\<close>.\<close>

definition key_points :: "string \<Rightarrow> js \<Rightarrow> string \<Rightarrow> run" where
  "key_points target summaryData key =
     (case get_prop summaryData key of
        Inl err \<Rightarrow> raise err
      | Inr points \<Rightarrow>
          (case array_items points of
             Inl err \<Rightarrow> raise err
           | Inr items \<Rightarrow>
               (case each_item key_point_markup items of
                  Inl err \<Rightarrow> raise err
                | Inr ms \<Rightarrow> ([Write target], None))))"

text \<open>\<open>renderAbout\<close> reads \<open>SITE_DATA.site.assets\<close> from the global store.\<close>

definition renderAbout :: "about_page \<Rightarrow> store \<Rightarrow> js \<Rightarrow> run" where
  "renderAbout page sd personalInfo =
     (if truthy personalInfo \<and> about_section page then
        (case site_prop sd ''assets'' of
           Inl err \<Rightarrow> raise err
         | Inr siteAssets \<Rightarrow>
        (case get_prop personalInfo ''profile_summary'' of
           Inl err \<Rightarrow> raise err
         | Inr summaryData \<Rightarrow>
             then_do
               (if about_profile_img page \<and> truthy siteAssets then
                  (case get_prop siteAssets ''images'' of
                     Inl err \<Rightarrow> raise err
                   | Inr images \<Rightarrow>
                       write_from ''#about .col-lg-4 img''
                         [get_prop images ''profile_image_formal''])
                else skip)
            (then_do
               (if about_summary page \<and> truthy summaryData then
                  then_do
                    (if about_title_h2 page
                     then write_from ''#about .section-title h2''
                            [get_prop summaryData ''title'',
                             get_prop summaryData ''link_printable_cv'']
                     else skip)
                 (then_do
                    (if about_intro_p page
                     then write_from ''#about .section-title p:nth-of-type(1)''
                            [get_prop summaryData ''intro_paragraph_html'']
                     else skip)
                 (then_do
                    (if about_left_list page
                     then key_points ''#about .col-lg-6:nth-child(1) ul'' summaryData
                            ''key_points_left''
                     else skip)
                    (if about_right_list page
                     then key_points ''#about .col-lg-6:nth-child(2) ul'' summaryData
                            ''key_points_right''
                     else skip)))
                else skip)
            (then_do
               (if about_research_area page \<and> truthy summaryData
                then write_from ''#research-summary-area''
                       [get_prop summaryData ''research_area'',
                        get_prop summaryData ''recent_works'']
                else skip)
               (case get_prop personalInfo ''about_full_text'' of
                  Inl err \<Rightarrow> raise err
                | Inr fullAboutData \<Rightarrow>
                    then_do
                      (if about_full_title page \<and> truthy fullAboutData
                       then write_from ''#about .container.section-title:nth-of-type(2) h2''
                              [get_prop fullAboutData ''title'']
                       else skip)
                      (if about_full_content page \<and> truthy fullAboutData
                       then write_from ''#about .container.section-title:nth-of-type(2) p''
                              [get_prop fullAboutData ''paragraph_html'']
                       else skip))))))
      else skip)"

section \<open>Sample data\<close>

text \<open>A small store in the shape of the data files, used where a property is checked
  at a concrete page load.\<close>

definition demo_main_menu :: js where
  "demo_main_menu =
     JArr [JObj [(''label'', JStr ''Home''), (''url'', JStr ''#hero'')],
           JObj [(''label'', JStr ''About''), (''url'', JStr ''#about'')]]"

definition demo_details_menu :: js where
  "demo_details_menu = JArr [JObj [(''label'', JStr ''Back''), (''url'', JStr ''./'')]]"

definition demo_assets :: js where
  "demo_assets =
     JObj [(''images'',
              JObj [(''profile_image_pp'', JStr ''pp.jpg''),
                    (''profile_image_formal'', JStr ''formal.jpg'')]),
           (''icons'', JObj [(''logo_png'', JStr ''logo.png'')])]"

definition demo_site :: js where
  "demo_site =
     JObj [(''site_info'', JObj [(''title'', JStr ''Portfolio'')]),
           (''navigation'',
              JObj [(''main_menu'', demo_main_menu), (''details_menu'', demo_details_menu)]),
           (''assets'', demo_assets)]"

definition demo_personal_info :: js where
  "demo_personal_info = JObj [(''name'', JStr ''A'')]"

definition demo_store :: store where
  "demo_store = [(''personal_info'', demo_personal_info), (''site'', demo_site)]"

text \<open>A page where no call throws and only \<open>initTypedAnimation\<close> is defined.\<close>

definition demo_env :: env where
  "demo_env =
     \<lparr>hook_defined = (\<lambda>h. h = InitTypedAnimation),
      hook_throws = (\<lambda>h. False),
      call_throws = (\<lambda>name args. False)\<rparr>"

text \<open>A server that has \<open>personal_info.json\<close> and \<open>site.json\<close> and answers every
  other address with a status that is not \<open>ok\<close>.\<close>

definition demo_fetch :: "string \<Rightarrow> fetch_result" where
  "demo_fetch url =
     (if url = ''./assets/data/personal_info.json'' then Parsed demo_personal_info
      else if url = ''./assets/data/site.json'' then Parsed demo_site
      else NotOk)"

text \<open>A server that has all sixteen files: the two above, and an empty object for each of
  the others.\<close>

definition demo_fetch_all :: "string \<Rightarrow> fetch_result" where
  "demo_fetch_all url =
     (if url = ''./assets/data/personal_info.json'' then Parsed demo_personal_info
      else if url = ''./assets/data/site.json'' then Parsed demo_site
      else Parsed (JObj []))"

text \<open>The sample site entry with the \<open>url\<close> of its \<open>Home\<close> entry overwritten.\<close>

definition demo_site_cv :: js where
  "demo_site_cv =
     JObj [(''site_info'', JObj [(''title'', JStr ''Portfolio'')]),
           (''navigation'',
              JObj [(''main_menu'',
                       JArr [JObj [(''label'', JStr ''Home''),
                                   (''url'', JStr ''./index.html#about'')],
                             JObj [(''label'', JStr ''About''), (''url'', JStr ''#about'')]]),
                    (''details_menu'', demo_details_menu)]),
           (''assets'', demo_assets)]"

section \<open>The store after a successful load\<close>

lemma baseName_JSON_FILES:
  "list_all (\<lambda>f. baseName f @ ''.json'' = f) JSON_FILES"
  by (simp add: JSON_FILES_def baseName_def)

lemma baseName_strips:
  "f \<in> set JSON_FILES \<Longrightarrow> baseName f @ ''.json'' = f"
  using baseName_JSON_FILES by (simp add: list_all_iff)

lemma baseName_inj: "inj_on baseName (set JSON_FILES)"
proof (rule inj_onI)
  fix f g assume "f \<in> set JSON_FILES" "g \<in> set JSON_FILES" "baseName f = baseName g"
  then show "f = g" using baseName_strips by metis
qed

lemma distinct_JSON_FILES: "distinct JSON_FILES"
  by (simp add: JSON_FILES_def)

lemma length_JSON_FILES: "length JSON_FILES = 16"
  by (simp add: JSON_FILES_def)

lemma settle_all_parsed:
  "\<forall>f\<in>set order. fetch (BASE_DATA_PATH @ f) = Parsed (d f) \<Longrightarrow>
   settle_all fetch order sd = (store_all d order sd, True)"
  by (induction order arbitrary: sd) (simp_all add: store_all_def)

lemma store_all_keys: "fst ` set (store_all d order sd) = fst ` set sd \<union> baseName ` set order"
  unfolding store_all_def
  by (induction order arbitrary: sd) (auto simp: dom_update)

lemma store_all_distinct:
  "distinct (map fst sd) \<Longrightarrow> distinct (map fst (store_all d order sd))"
  unfolding store_all_def
  by (induction order arbitrary: sd) (simp_all add: distinct_update)

lemma store_all_lookup:
  "inj_on baseName (set order) \<Longrightarrow> f \<in> set order \<Longrightarrow>
   map_of (store_all d order sd) (baseName f) = Some (d f)"
proof (induction order rule: rev_induct)
  case Nil then show ?case by simp
next
  case (snoc x xs)
  show ?case
  proof (cases "f = x")
    case True then show ?thesis by (simp add: store_all_def update_conv)
  next
    case False
    with snoc.prems have fin: "f \<in> set xs" by simp
    from snoc.prems have inj: "inj_on baseName (set xs)" by (auto simp: inj_on_def)
    from snoc.prems False fin have "baseName f \<noteq> baseName x" by (auto simp: inj_on_def)
    with snoc.IH[OF inj fin] show ?thesis by (simp add: store_all_def update_conv)
  qed
qed

text \<open>
  Claim C2. When each of the sixteen fetches ends in a parsed value, in whatever order
  the chains settle, \<open>loadAllData\<close> started on the empty store leaves exactly one entry
  per file of \<open>JSON_FILES\<close>: the keys are the base names and no others, no key occurs
  twice, there are sixteen entries, the entry of a file is under its name without the
  \<open>.json\<close> ending and holds the value parsed for that file; the error notice is not
  written.
\<close>

theorem loaded_store_exact:
  assumes order: "set order = set JSON_FILES"
      and ok: "\<forall>f\<in>set JSON_FILES. fetch (BASE_DATA_PATH @ f) = Parsed (d f)"
  shows "fst ` set (fst (loadAllData fetch order [])) = baseName ` set JSON_FILES
       \<and> distinct (map fst (fst (loadAllData fetch order [])))
       \<and> length (fst (loadAllData fetch order [])) = 16
       \<and> (\<forall>f\<in>set JSON_FILES.
             map_of (fst (loadAllData fetch order [])) (baseName f) = Some (d f)
             \<and> baseName f @ ''.json'' = f)
       \<and> snd (loadAllData fetch order []) =
           [ConsoleLog ''Starting data loading...'',
            ConsoleLog ''All core data loaded successfully.'']"
proof -
  let ?sd = "store_all d order []"
  from ok order have "\<forall>f\<in>set order. fetch (BASE_DATA_PATH @ f) = Parsed (d f)" by simp
  then have st: "settle_all fetch order [] = (?sd, True)" by (rule settle_all_parsed)
  then have ld: "loadAllData fetch order [] =
      (?sd, [ConsoleLog ''Starting data loading...'',
             ConsoleLog ''All core data loaded successfully.''])"
    by (simp add: loadAllData_def)
  have keys: "fst ` set ?sd = baseName ` set JSON_FILES"
    using store_all_keys[of d order "[]"] order by simp
  have dist: "distinct (map fst ?sd)" by (rule store_all_distinct) simp
  have "length ?sd = card (fst ` set ?sd)"
    using dist distinct_card[of "map fst ?sd"] by simp
  also have "\<dots> = card (set JSON_FILES)"
    unfolding keys by (rule card_image[OF baseName_inj])
  also have "\<dots> = 16"
    using distinct_card[OF distinct_JSON_FILES] length_JSON_FILES by simp
  finally have len: "length ?sd = 16" .
  have look: "\<forall>f\<in>set JSON_FILES. map_of ?sd (baseName f) = Some (d f) \<and> baseName f @ ''.json'' = f"
    using store_all_lookup[of order _ d "[]"] baseName_inj baseName_strips order by auto
  show ?thesis unfolding ld using keys dist len look by simp
qed

text \<open>The load of Claim C2 with the chains settling in reverse order, each file
  answering with its own address as a JSON string.\<close>

theorem loaded_store_exact_witness:
  "map_of (fst (loadAllData (\<lambda>u. Parsed (JStr u)) (rev JSON_FILES) [])) ''site''
     = Some (JStr ''./assets/data/site.json'')
   \<and> length (fst (loadAllData (\<lambda>u. Parsed (JStr u)) (rev JSON_FILES) [])) = 16"
proof -
  have h1: "set (rev JSON_FILES) = set JSON_FILES" by simp
  have h2: "\<forall>f\<in>set JSON_FILES.
      (\<lambda>u. Parsed (JStr u)) (BASE_DATA_PATH @ f) = Parsed (JStr (BASE_DATA_PATH @ f))"
    by simp
  have mem: "''site.json'' \<in> set JSON_FILES" by (simp add: JSON_FILES_def)
  have bn: "baseName ''site.json'' = ''site''" by (simp add: baseName_def)
  from loaded_store_exact[OF h1 h2] mem bn show ?thesis
    by (auto simp: BASE_DATA_PATH_def)
qed

section \<open>Page classification\<close>

lemma lastIndexOf_absent: "c \<notin> set s \<Longrightarrow> lastIndexOf s c = -1"
  by (induction s) (auto simp: Let_def)

lemma lastIndexOf_last:
  "c \<notin> set name \<Longrightarrow> lastIndexOf (dir @ c # name) c = int (length dir)"
  by (induction dir) (simp_all add: Let_def lastIndexOf_absent)

lemma final_segment_of_path:
  assumes "CHR ''/'' \<notin> set name"
  shows "final_segment (dir @ CHR ''/'' # name) = name" and "final_segment name = name"
proof -
  have "nat (int (length dir) + 1) = Suc (length dir)" by simp
  with assms show "final_segment (dir @ CHR ''/'' # name) = name"
    by (simp add: final_segment_def substring_def lastIndexOf_last)
  from assms show "final_segment name = name"
    by (simp add: final_segment_def substring_def lastIndexOf_absent)
qed

lemma render_phase_trace:
  "select_menu (final_segment p) sd = Inr (sd', m) \<Longrightarrow>
   trace (render_phase e p sd) =
     ConsoleLog ''Rendering site with loaded data...''
     # fst (run_steps e (common_calls sd' m @ page_sections (final_segment p) sd'
                         @ reinit_libraries e
                         @ [Inr (ConsoleLog ''Dynamic rendering complete.'')]))"
  by (simp add: render_phase_def Let_def split: prod.splits)

text \<open>
  Claim C3, as amended. The file name is the part of the path after its last \<open>/\<close>
  (the whole path when it has none), the render phase makes the section calls of that
  file name, and two paths with the same final segment give the same run.
  \<open>printable_cv.html\<close> selects the fifteen calls of the CV sequence. Each of the nine
  detail names other than \<open>publications-details.html\<close> selects exactly its one detail
  renderer. \<open>publications-details.html\<close> selects \<open>renderPublicationsDetails\<close>, which
  the source calls under \<open>if (SITE_DATA.publications)\<close>: one call when that value is
  truthy, no section call when it is not. Every name that is none of the eleven, the
  empty name and \<open>index.html\<close> among them, selects the sixteen calls of the index
  sequence.
\<close>

theorem page_classification:
  "page_sections ''printable_cv.html'' sd =
     [Inr (Call ''renderAboutCV'' [data sd ''personal_info'']),
      Inr (Call ''renderKeyMetricsCV'' [data sd ''key_metrics'']),
      Inr (Call ''renderEducationsCV'' [data sd ''education'']),
      Inr (Call ''renderProfessionalExperiencesCV'' [data sd ''professional_experience'']),
      Inr (Call ''renderExpertiseAndAchievementsCV'' [data sd ''expertise_achievements'']),
      Inr (Call ''renderSkillsToolsCV'' [data sd ''skills'']),
      Inr (Call ''renderHonorsAwardsCV'' [data sd ''honors_awards'']),
      Inr (Call ''renderCoursesTrainingsCertificatesCV''
             [data sd ''courses_trainings_certificates'']),
      Inr (Call ''renderProjectsCV'' [data sd ''projects'']),
      Inr (Call ''renderMembershipsCV'' [data sd ''memberships'']),
      Inr (Call ''renderSessionsEventsCV'' [data sd ''sessions_events'']),
      Inr (Call ''renderLanguagesCV'' [data sd ''languages'']),
      Inr (Call ''renderPortfoliosCV'' [data sd ''portfolios'']),
      Inr (Call ''renderVolunteeringsCV'' [data sd ''volunteerings'']),
      Inr (Call ''renderPublicationsCV'' [data sd ''publications''])]
   \<and> page_sections ''skillsAndTools-details.html'' sd =
       [Inr (Call ''renderSkillsToolsDetails'' [data sd ''skills''])]
   \<and> page_sections ''honorsAndAwards-details.html'' sd =
       [Inr (Call ''renderHonorsAwardsDetails'' [data sd ''honors_awards''])]
   \<and> page_sections ''coursesTrainingsAndCertificates-details.html'' sd =
       [Inr (Call ''renderCoursesTrainingsCertificatesDetails''
               [data sd ''courses_trainings_certificates''])]
   \<and> page_sections ''projects-details.html'' sd =
       [Inr (Call ''renderProjectsDetails'' [data sd ''projects''])]
   \<and> page_sections ''memberships-details.html'' sd =
       [Inr (Call ''renderMembershipsDetails'' [data sd ''memberships''])]
   \<and> page_sections ''sessionsAndEvents-details.html'' sd =
       [Inr (Call ''renderSessionsEventsDetails'' [data sd ''sessions_events''])]
   \<and> page_sections ''languages-details.html'' sd =
       [Inr (Call ''renderLanguagesDetails'' [data sd ''languages''])]
   \<and> page_sections ''portfolios-details.html'' sd =
       [Inr (Call ''renderPortfoliosDetails'' [data sd ''portfolios''])]
   \<and> page_sections ''volunteerings-details.html'' sd =
       [Inr (Call ''renderVolunteeringsDetails'' [data sd ''volunteerings''])]
   \<and> (truthy (data sd ''publications'') \<longrightarrow>
        page_sections ''publications-details.html'' sd =
          [Inr (Call ''renderPublicationsDetails'' [data sd ''publications''])])
   \<and> (\<not> truthy (data sd ''publications'') \<longrightarrow>
        page_sections ''publications-details.html'' sd = [])
   \<and> (fileName \<notin> {''printable_cv.html'', ''skillsAndTools-details.html'',
          ''honorsAndAwards-details.html'', ''coursesTrainingsAndCertificates-details.html'',
          ''projects-details.html'', ''memberships-details.html'',
          ''sessionsAndEvents-details.html'', ''languages-details.html'',
          ''portfolios-details.html'', ''volunteerings-details.html'',
          ''publications-details.html''}
        \<longrightarrow> page_sections fileName sd =
          [Inr (Call ''renderHero'' [data sd ''personal_info'']),
           Inr (Call ''renderAbout'' [data sd ''personal_info'']),
           Inr (Call ''renderKeyMetrics'' [data sd ''key_metrics'']),
           Inr (Call ''renderEducations'' [data sd ''education'']),
           Inr (Call ''renderProfessionalExperiences'' [data sd ''professional_experience'']),
           Inr (Call ''renderExpertiseAndAchievements'' [data sd ''expertise_achievements'']),
           Inr (Call ''renderSkillsTools'' [data sd ''skills'']),
           Inr (Call ''renderHonorsAwards'' [data sd ''honors_awards'']),
           Inr (Call ''renderCoursesTrainingsCertificates''
                  [data sd ''courses_trainings_certificates'']),
           Inr (Call ''renderProjects'' [data sd ''projects'']),
           Inr (Call ''renderMemberships'' [data sd ''memberships'']),
           Inr (Call ''renderSessionsEvents'' [data sd ''sessions_events'']),
           Inr (Call ''renderLanguages'' [data sd ''languages'']),
           Inr (Call ''renderPortfolios'' [data sd ''portfolios'']),
           Inr (Call ''renderVolunteerings'' [data sd ''volunteerings'']),
           Inr (Call ''renderPublications'' [data sd ''publications''])])
   \<and> page_sections [] sd = page_sections ''index.html'' sd
   \<and> page_sections ''index.html'' sd = page_sections ''gallery.html'' sd
   \<and> (CHR ''/'' \<notin> set name \<longrightarrow>
        final_segment (dir @ CHR ''/'' # name) = name \<and> final_segment name = name)
   \<and> (select_menu (final_segment p) sd = Inr (sd', m) \<longrightarrow>
        trace (render_phase e p sd) =
          ConsoleLog ''Rendering site with loaded data...''
          # fst (run_steps e (common_calls sd' m @ page_sections (final_segment p) sd'
                              @ reinit_libraries e
                              @ [Inr (ConsoleLog ''Dynamic rendering complete.'')])))
   \<and> (final_segment p = final_segment q \<longrightarrow> render_phase e p sd = render_phase e q sd)"
proof -
  have cv: "page_sections ''printable_cv.html'' sd = cv_sections sd"
    by (simp add: page_sections_def)
  have details:
    "page_sections ''skillsAndTools-details.html'' sd =
       [Inr (Call ''renderSkillsToolsDetails'' [data sd ''skills''])]"
    "page_sections ''honorsAndAwards-details.html'' sd =
       [Inr (Call ''renderHonorsAwardsDetails'' [data sd ''honors_awards''])]"
    "page_sections ''coursesTrainingsAndCertificates-details.html'' sd =
       [Inr (Call ''renderCoursesTrainingsCertificatesDetails''
               [data sd ''courses_trainings_certificates''])]"
    "page_sections ''projects-details.html'' sd =
       [Inr (Call ''renderProjectsDetails'' [data sd ''projects''])]"
    "page_sections ''memberships-details.html'' sd =
       [Inr (Call ''renderMembershipsDetails'' [data sd ''memberships''])]"
    "page_sections ''sessionsAndEvents-details.html'' sd =
       [Inr (Call ''renderSessionsEventsDetails'' [data sd ''sessions_events''])]"
    "page_sections ''languages-details.html'' sd =
       [Inr (Call ''renderLanguagesDetails'' [data sd ''languages''])]"
    "page_sections ''portfolios-details.html'' sd =
       [Inr (Call ''renderPortfoliosDetails'' [data sd ''portfolios''])]"
    "page_sections ''volunteerings-details.html'' sd =
       [Inr (Call ''renderVolunteeringsDetails'' [data sd ''volunteerings''])]"
    by (simp_all add: page_sections_def call1_def)
  have pubs:
    "truthy (data sd ''publications'') \<longrightarrow>
       page_sections ''publications-details.html'' sd =
         [Inr (Call ''renderPublicationsDetails'' [data sd ''publications''])]"
    "\<not> truthy (data sd ''publications'') \<longrightarrow>
       page_sections ''publications-details.html'' sd = []"
    by (simp_all add: page_sections_def call1_def)
  have other: "fileName \<notin> {''printable_cv.html'', ''skillsAndTools-details.html'',
          ''honorsAndAwards-details.html'', ''coursesTrainingsAndCertificates-details.html'',
          ''projects-details.html'', ''memberships-details.html'',
          ''sessionsAndEvents-details.html'', ''languages-details.html'',
          ''portfolios-details.html'', ''volunteerings-details.html'',
          ''publications-details.html''}
        \<longrightarrow> page_sections fileName sd = index_sections sd"
    by (simp add: page_sections_def)
  have idx: "page_sections [] sd = page_sections ''index.html'' sd"
    "page_sections ''index.html'' sd = page_sections ''gallery.html'' sd"
    by (simp_all add: page_sections_def)
  have seg: "CHR ''/'' \<notin> set name \<longrightarrow>
        final_segment (dir @ CHR ''/'' # name) = name \<and> final_segment name = name"
    using final_segment_of_path by blast
  have tr: "select_menu (final_segment p) sd = Inr (sd', m) \<longrightarrow>
        trace (render_phase e p sd) =
          ConsoleLog ''Rendering site with loaded data...''
          # fst (run_steps e (common_calls sd' m @ page_sections (final_segment p) sd'
                              @ reinit_libraries e
                              @ [Inr (ConsoleLog ''Dynamic rendering complete.'')]))"
    using render_phase_trace by blast
  have pure: "final_segment p = final_segment q \<longrightarrow> render_phase e p sd = render_phase e q sd"
    by (simp add: render_phase_def)
  show ?thesis
    unfolding cv
    apply (intro conjI)
    using details pubs other idx seg tr pure
    by (simp_all add: cv_sections_def index_sections_def call1_def)
qed

text \<open>Claim C3 as amended, at a path that ends in \<open>languages-details.html\<close>, at
  \<open>publications-details.html\<close> with a publications entry, and at \<open>gallery.html\<close>, a
  name that is none of the eleven.\<close>

theorem page_classification_witness:
  "final_segment ''/site/languages-details.html'' = ''languages-details.html''
   \<and> page_sections ''publications-details.html'' [(''publications'', JObj [])] =
       [Inr (Call ''renderPublicationsDetails'' [JObj []])]
   \<and> hd (page_sections ''gallery.html'' [(''publications'', JObj [])]) =
       Inr (Call ''renderHero'' [Undefined])"
proof -
  note pc = page_classification[where sd = "[(''publications'', JObj [])]"
      and fileName = "''gallery.html''" and name = "''languages-details.html''"
      and dir = "''/site''"]
  have a: "CHR ''/'' \<notin> set ''languages-details.html''" by simp
  have b: "truthy (data [(''publications'', JObj [])] ''publications'')"
    by (simp add: data_def)
  have c: "''gallery.html'' \<notin> {''printable_cv.html'', ''skillsAndTools-details.html'',
          ''honorsAndAwards-details.html'', ''coursesTrainingsAndCertificates-details.html'',
          ''projects-details.html'', ''memberships-details.html'',
          ''sessionsAndEvents-details.html'', ''languages-details.html'',
          ''portfolios-details.html'', ''volunteerings-details.html'',
          ''publications-details.html''}" by simp
  from pc a b c show ?thesis by (simp add: data_def)
qed

text \<open>Claim C3 as stated fails at \<open>publications-details.html\<close> when
  \<open>publications.json\<close> holds \<open>null\<close>: the page is the publications detail page and
  no detail renderer is called.\<close>

theorem publications_guard_counterexample:
  "page_sections ''publications-details.html'' [(''site'', demo_site), (''publications'', Null)]
     = []"
  by (simp add: page_sections_def data_def)

section \<open>A store without the site entry\<close>

lemma select_menu_no_site:
  "map_of sd ''site'' = None \<Longrightarrow> select_menu fileName sd = Inl TypeError"
  by (simp add: select_menu_def site_prop_def data_def)

lemma render_phase_no_site:
  assumes "map_of sd ''site'' = None"
  shows "render_phase e pathName sd =
     \<lparr>final_store = sd, trace = [ConsoleLog ''Rendering site with loaded data...''],
      thrown = Some TypeError\<rparr>"
  using assms
  by (simp add: render_phase_def Let_def select_menu_no_site)

lemma settle_all_keys_mono:
  "settle_all fetch order sd0 = (sd, b) \<Longrightarrow> fst ` set sd0 \<subseteq> fst ` set sd"
proof (induction order arbitrary: sd0)
  case Nil
  then show ?case by simp
next
  case (Cons f order)
  show ?case
  proof (cases "fetch (BASE_DATA_PATH @ f)")
    case (Parsed v)
    with Cons.prems have "settle_all fetch order (AList.update (baseName f) v sd0) = (sd, b)"
      by simp
    from Cons.IH[OF this] show ?thesis by (auto simp: dom_update)
  qed (use Cons.prems in auto)
qed

lemma settle_all_complete_keys:
  "settle_all fetch order sd0 = (sd, True) \<Longrightarrow> f \<in> set order \<Longrightarrow> baseName f \<in> fst ` set sd"
proof (induction order arbitrary: sd0)
  case Nil
  then show ?case by simp
next
  case (Cons g order)
  from Cons.prems(1) obtain v where v: "fetch (BASE_DATA_PATH @ g) = Parsed v"
    by (cases "fetch (BASE_DATA_PATH @ g)") auto
  with Cons.prems(1) have st: "settle_all fetch order (AList.update (baseName g) v sd0) = (sd, True)"
    by simp
  show ?case
  proof (cases "f = g")
    case True
    have "baseName g \<in> fst ` set (AList.update (baseName g) v sd0)" by (simp add: dom_update)
    with settle_all_keys_mono[OF st] True show ?thesis by blast
  next
    case False
    with Cons.prems(2) have "f \<in> set order" by simp
    from Cons.IH[OF st this] show ?thesis .
  qed
qed

lemma failed_load_effects:
  assumes "loadAllData fetch order sd0 = (sd, evs)" and "f \<in> set order"
      and "baseName f \<notin> fst ` set sd"
  shows "evs = [ConsoleLog ''Starting data loading...'',
                ConsoleError ''Error during data loading:'',
                SetInnerHTML ''document.body'' error_notice]"
proof -
  obtain sd1 ok where st: "settle_all fetch order sd0 = (sd1, ok)"
    by (cases "settle_all fetch order sd0")
  with assms(1) have sd1: "sd1 = sd" by (simp add: loadAllData_def split: if_splits)
  have "\<not> ok"
  proof
    assume ok
    with st sd1 have "settle_all fetch order sd0 = (sd, True)" by simp
    from settle_all_complete_keys[OF this assms(2)] assms(3) show False by simp
  qed
  with st assms(1) show ?thesis by (simp add: loadAllData_def)
qed

text \<open>
  Claim C10, as amended. The guard of \<open>initializeSite\<close> asks only for a store that is
  not empty. When the store left by \<open>loadAllData\<close> has an entry but none for \<open>site\<close>,
  the render phase is entered and \<open>SITE_DATA.site.navigation\<close> throws a \<open>TypeError\<close>,
  on every page: no render call is made, the dispatcher writes nothing to the page, and
  the exception leaves \<open>initializeSite\<close>. The error notice is shown all the same, before
  the exception: \<open>site.json\<close> is one of the files fetched, so a store without the
  \<open>site\<close> entry comes from a load that failed, and \<open>loadAllData\<close> has logged the error
  and written the notice.
\<close>

theorem missing_site_entry_throws:
  assumes ld: "loadAllData fetch order [] = (sd, evs)" and ne: "sd \<noteq> []"
      and nosite: "map_of sd ''site'' = None"
  shows "initializeSite e fetch order pathName =
           \<lparr>final_store = sd,
            trace = evs @ [ConsoleLog ''Rendering site with loaded data...''],
            thrown = Some TypeError\<rparr>
       \<and> (''site.json'' \<in> set order \<longrightarrow>
            evs = [ConsoleLog ''Starting data loading...'',
                   ConsoleError ''Error during data loading:'',
                   SetInnerHTML ''document.body'' error_notice])"
proof -
  have a: "initializeSite e fetch order pathName =
           \<lparr>final_store = sd,
            trace = evs @ [ConsoleLog ''Rendering site with loaded data...''],
            thrown = Some TypeError\<rparr>"
    using ld ne nosite by (simp add: initializeSite_def render_phase_no_site)
  have k: "baseName ''site.json'' \<notin> fst ` set sd"
    using nosite by (simp add: baseName_def map_of_eq_None_iff)
  have b: "''site.json'' \<in> set order \<longrightarrow>
            evs = [ConsoleLog ''Starting data loading...'',
                   ConsoleError ''Error during data loading:'',
                   SetInnerHTML ''document.body'' error_notice]"
    using failed_load_effects[OF ld _ k] by blast
  from a b show ?thesis by (rule conjI)
qed

text \<open>Claim C10 as amended, at a load where only \<open>personal_info.json\<close> is
  served.\<close>

theorem missing_site_entry_throws_witness:
  "initializeSite demo_env
     (\<lambda>u. if u = ''./assets/data/personal_info.json'' then Parsed demo_personal_info else NotOk)
     JSON_FILES ''/index.html'' =
     \<lparr>final_store = [(''personal_info'', demo_personal_info)],
      trace = [ConsoleLog ''Starting data loading...'',
               ConsoleError ''Error during data loading:'',
               SetInnerHTML ''document.body'' error_notice,
               ConsoleLog ''Rendering site with loaded data...''],
      thrown = Some TypeError\<rparr>"
proof -
  let ?fetch = "\<lambda>u. if u = ''./assets/data/personal_info.json'' then Parsed demo_personal_info else NotOk"
  obtain sd evs where ld: "loadAllData ?fetch JSON_FILES [] = (sd, evs)"
    by (cases "loadAllData ?fetch JSON_FILES []")
  have sd: "sd = [(''personal_info'', demo_personal_info)]"
    using ld by (simp add: loadAllData_def JSON_FILES_def BASE_DATA_PATH_def baseName_def)
  have ne: "sd \<noteq> []" and nosite: "map_of sd ''site'' = None" by (simp_all add: sd)
  have mem: "''site.json'' \<in> set JSON_FILES" by (simp add: JSON_FILES_def)
  note th = missing_site_entry_throws[OF ld ne nosite, of demo_env "''/index.html''"]
  from th[THEN conjunct2, rule_format, OF mem] th[THEN conjunct1] sd
  show ?thesis by simp
qed

text \<open>Claim C10 as stated fails at a load where every file but \<open>site.json\<close> is
  served: the \<open>TypeError\<close> is thrown, and the error notice has been written before
  it, not left out.\<close>

theorem notice_shown_then_type_error_counterexample:
  "initializeSite demo_env
     (\<lambda>u. if u = ''./assets/data/site.json'' then NotOk else Parsed (JObj []))
     JSON_FILES ''/index.html'' =
     \<lparr>final_store = [(''personal_info'', JObj [])],
      trace = [ConsoleLog ''Starting data loading...'',
               ConsoleError ''Error during data loading:'',
               SetInnerHTML ''document.body'' error_notice,
               ConsoleLog ''Rendering site with loaded data...''],
      thrown = Some TypeError\<rparr>"
proof -
  have ld: "loadAllData (\<lambda>u. if u = ''./assets/data/site.json'' then NotOk else Parsed (JObj []))
      JSON_FILES [] =
      ([(''personal_info'', JObj [])],
       [ConsoleLog ''Starting data loading...'', ConsoleError ''Error during data loading:'',
        SetInnerHTML ''document.body'' error_notice])"
    by (simp add: loadAllData_def JSON_FILES_def BASE_DATA_PATH_def baseName_def)
  show ?thesis by (simp add: initializeSite_def ld render_phase_no_site)
qed

section \<open>A load that fails\<close>

lemma settle_all_failure:
  assumes "\<forall>g\<in>set pre. fetch (BASE_DATA_PATH @ g) = Parsed (d g)"
      and "\<forall>v. fetch (BASE_DATA_PATH @ f) \<noteq> Parsed v"
  shows "settle_all fetch (pre @ f # post) sd = (store_all d pre sd, False)"
  using assms
proof (induction pre arbitrary: sd)
  case Nil
  then show ?case by (cases "fetch (BASE_DATA_PATH @ f)") (simp_all add: store_all_def)
next
  case (Cons g pre)
  then show ?case by (simp add: store_all_def)
qed

lemma store_all_empty: "store_all d order [] = [] \<longleftrightarrow> order = []"
proof
  assume "store_all d order [] = []"
  then have "fst ` set (store_all d order []) = {}" by simp
  then show "order = []" unfolding store_all_keys by simp
next
  assume "order = []" then show "store_all d order [] = []" by (simp add: store_all_def)
qed

text \<open>
  Claim C5, as amended. Nothing is rolled back when the batch fails. If the chains of
  the files \<open>pre\<close> end in values and the next chain to settle, that of \<open>f\<close>, fails,
  \<open>loadAllData\<close> logs the error, writes the notice and returns with the store holding
  exactly the entries of \<open>pre\<close>: its keys are their base names, each (when the base
  names differ) with the value parsed for it, and it is empty only when no chain ended
  in a value before the failure.
\<close>

theorem failed_load_keeps_earlier_entries:
  assumes "\<forall>g\<in>set pre. fetch (BASE_DATA_PATH @ g) = Parsed (d g)"
      and "\<forall>v. fetch (BASE_DATA_PATH @ f) \<noteq> Parsed v"
  shows "loadAllData fetch (pre @ f # post) [] =
           (store_all d pre [],
            [ConsoleLog ''Starting data loading...'',
             ConsoleError ''Error during data loading:'',
             SetInnerHTML ''document.body'' error_notice])
       \<and> fst ` set (store_all d pre []) = baseName ` set pre
       \<and> (store_all d pre [] = [] \<longleftrightarrow> pre = [])
       \<and> (inj_on baseName (set pre) \<longrightarrow>
            (\<forall>g\<in>set pre. map_of (store_all d pre []) (baseName g) = Some (d g)))"
  using settle_all_failure[OF assms, of post "[]"] store_all_keys[of d pre "[]"]
    store_all_empty[of d pre] store_all_lookup[of pre _ d "[]"]
  by (simp add: loadAllData_def)

text \<open>Claim C5 as amended, at the sample server: two files arrive, the third is
  refused.\<close>

theorem failed_load_keeps_earlier_entries_witness:
  "loadAllData demo_fetch JSON_FILES [] =
     ([(''personal_info'', demo_personal_info), (''site'', demo_site)],
      [ConsoleLog ''Starting data loading...'',
       ConsoleError ''Error during data loading:'',
       SetInnerHTML ''document.body'' error_notice])"
proof -
  let ?d = "\<lambda>f. if f = ''personal_info.json'' then demo_personal_info else demo_site"
  have a: "\<forall>g\<in>set [''personal_info.json'', ''site.json''].
      demo_fetch (BASE_DATA_PATH @ g) = Parsed (?d g)"
    by (simp add: demo_fetch_def BASE_DATA_PATH_def)
  have b: "\<forall>v. demo_fetch (BASE_DATA_PATH @ ''key_metrics.json'') \<noteq> Parsed v"
    by (simp add: demo_fetch_def BASE_DATA_PATH_def)
  have c: "JSON_FILES = [''personal_info.json'', ''site.json''] @ ''key_metrics.json'' # drop 3 JSON_FILES"
    by (simp add: JSON_FILES_def)
  have s: "store_all ?d [''personal_info.json'', ''site.json''] [] =
      [(''personal_info'', demo_personal_info), (''site'', demo_site)]"
    by (simp add: store_all_def baseName_def)
  from failed_load_keeps_earlier_entries[OF a b, of "drop 3 JSON_FILES"] c s
  show ?thesis by simp
qed

text \<open>Claim C5 as stated fails at the sample server: the load takes the failure path
  (the notice is written) and the store keeps the two entries that had arrived.\<close>

theorem failed_load_keeps_entries_counterexample:
  "fst (loadAllData demo_fetch JSON_FILES []) =
     [(''personal_info'', demo_personal_info), (''site'', demo_site)]
   \<and> SetInnerHTML ''document.body'' error_notice \<in> set (snd (loadAllData demo_fetch JSON_FILES []))"
  by (simp add: loadAllData_def JSON_FILES_def demo_fetch_def BASE_DATA_PATH_def baseName_def)

text \<open>
  The guard of \<open>initializeSite\<close> does not tell a failed load from a complete one. When
  at least one chain has stored its value before the first failure, the render phase
  runs on the partial store, after the error notice has been written.
\<close>

lemma partial_load_enters_render_phase:
  assumes "\<forall>g\<in>set pre. fetch (BASE_DATA_PATH @ g) = Parsed (d g)"
      and "\<forall>v. fetch (BASE_DATA_PATH @ f) \<noteq> Parsed v"
      and "pre \<noteq> []"
  shows "initializeSite e fetch (pre @ f # post) p =
     (render_phase e p (store_all d pre []))
       \<lparr>trace := [ConsoleLog ''Starting data loading...'',
                  ConsoleError ''Error during data loading:'',
                  SetInnerHTML ''document.body'' error_notice]
                 @ trace (render_phase e p (store_all d pre []))\<rparr>"
proof -
  have "loadAllData fetch (pre @ f # post) [] =
      (store_all d pre [],
       [ConsoleLog ''Starting data loading...'', ConsoleError ''Error during data loading:'',
        SetInnerHTML ''document.body'' error_notice])"
    using settle_all_failure[OF assms(1,2), of post "[]"] by (simp add: loadAllData_def)
  moreover have "store_all d pre [] \<noteq> []" using assms(3) by (simp add: store_all_empty)
  ultimately show ?thesis by (simp add: initializeSite_def Let_def)
qed

text \<open>
  Claim C1 at the sample server, on \<open>/index.html\<close>. \<open>key_metrics.json\<close> is refused
  after \<open>personal_info.json\<close> and \<open>site.json\<close> have arrived. \<open>loadAllData\<close> writes the
  error notice and returns; the store is not empty, so the guard of \<open>initializeSite\<close>
  lets the render phase run: all twenty-two render calls of the index page are made
  after the notice was written, and the run ends without an exception.
\<close>

theorem partial_failure_still_renders:
  "take 3 (trace (initializeSite demo_env demo_fetch JSON_FILES ''/index.html'')) =
      [ConsoleLog ''Starting data loading...'',
       ConsoleError ''Error during data loading:'',
       SetInnerHTML ''document.body'' error_notice]
   \<and> calls_of (trace (initializeSite demo_env demo_fetch JSON_FILES ''/index.html'')) =
      [''updateDocumentMetadata'', ''renderHeader'', ''renderMenuFooter'',
       ''renderPageFooter'', ''renderNavigation'', ''renderNavDropdowns'',
       ''renderHero'', ''renderAbout'', ''renderKeyMetrics'', ''renderEducations'',
       ''renderProfessionalExperiences'', ''renderExpertiseAndAchievements'',
       ''renderSkillsTools'', ''renderHonorsAwards'', ''renderCoursesTrainingsCertificates'',
       ''renderProjects'', ''renderMemberships'', ''renderSessionsEvents'',
       ''renderLanguages'', ''renderPortfolios'', ''renderVolunteerings'',
       ''renderPublications'']
   \<and> thrown (initializeSite demo_env demo_fetch JSON_FILES ''/index.html'') = None"
proof -
  have ld: "loadAllData demo_fetch JSON_FILES [] =
     (demo_store,
      [ConsoleLog ''Starting data loading...'',
       ConsoleError ''Error during data loading:'',
       SetInnerHTML ''document.body'' error_notice])"
    by (simp add: loadAllData_def JSON_FILES_def demo_fetch_def BASE_DATA_PATH_def baseName_def
        demo_store_def)
  have fs: "final_segment ''/index.html'' = ''index.html''"
    by (simp add: final_segment_def substring_def)
  have sm: "select_menu ''index.html'' demo_store = Inr (demo_store, demo_main_menu)"
    by (simp add: select_menu_def mainPages_def site_prop_def data_def demo_store_def demo_site_def)
  have rs: "run_steps demo_env
       (common_calls demo_store demo_main_menu @ page_sections ''index.html'' demo_store
        @ reinit_libraries demo_env @ [Inr (ConsoleLog ''Dynamic rendering complete.'')]) =
     (map projr
       (common_calls demo_store demo_main_menu @ page_sections ''index.html'' demo_store
        @ reinit_libraries demo_env @ [Inr (ConsoleLog ''Dynamic rendering complete.'')]), None)"
    by (simp add: common_calls_def page_sections_def index_sections_def reinit_libraries_def
        call1_def site_prop_def data_def demo_store_def demo_site_def demo_env_def)
  have ne: "demo_store \<noteq> []" by (simp add: demo_store_def)
  have tr: "initializeSite demo_env demo_fetch JSON_FILES ''/index.html'' =
     \<lparr>final_store = demo_store,
      trace = [ConsoleLog ''Starting data loading...'',
               ConsoleError ''Error during data loading:'',
               SetInnerHTML ''document.body'' error_notice,
               ConsoleLog ''Rendering site with loaded data...'']
              @ map projr
                  (common_calls demo_store demo_main_menu
                   @ page_sections ''index.html'' demo_store
                   @ reinit_libraries demo_env
                   @ [Inr (ConsoleLog ''Dynamic rendering complete.'')]),
      thrown = None\<rparr>"
    by (simp add: initializeSite_def ld render_phase_def Let_def fs sm rs ne)
  show ?thesis
    unfolding tr
    by (simp add: common_calls_def page_sections_def index_sections_def reinit_libraries_def
        call1_def site_prop_def data_def demo_store_def demo_site_def demo_env_def)
qed

section \<open>Menu selection\<close>

lemma label_starts_with_Home_Inr:
  "label_starts_with_Home item = Inr b \<longleftrightarrow>
   (\<exists>s. get_prop item ''label'' = Inr (JStr s) \<and> b = prefix ''Home'' s)"
  by (auto simp: label_starts_with_Home_def split: sum.splits js.splits)

lemma find_home_Some:
  "find_home items = Inr (Some i) \<Longrightarrow>
   i < length items
   \<and> (\<exists>s. get_prop (items ! i) ''label'' = Inr (JStr s) \<and> prefix ''Home'' s)
   \<and> (\<forall>j<i. \<exists>s. get_prop (items ! j) ''label'' = Inr (JStr s) \<and> \<not> prefix ''Home'' s)"
proof (induction items arbitrary: i)
  case Nil
  then show ?case by simp
next
  case (Cons item rest)
  from Cons.prems obtain b where b: "label_starts_with_Home item = Inr b"
    by (auto split: sum.splits)
  then obtain s where s: "get_prop item ''label'' = Inr (JStr s)" "b = prefix ''Home'' s"
    unfolding label_starts_with_Home_Inr by blast
  show ?case
  proof (cases b)
    case True
    with Cons.prems b have "i = 0" by simp
    with s True show ?thesis by simp
  next
    case False
    with Cons.prems b obtain k where k: "find_home rest = Inr (Some k)" "i = Suc k"
      by (auto split: sum.splits option.splits)
    from Cons.IH[OF k(1)] s False k(2) show ?thesis
      by (auto simp: less_Suc_eq_0_disj)
  qed
qed

lemma labelled_is_object:
  "get_prop item ''label'' = Inr (JStr s) \<Longrightarrow> \<exists>kvs. item = JObj kvs"
  by (cases item) simp_all

lemma set_url_props:
  assumes "get_prop item ''label'' = Inr (JStr s)"
  shows "get_prop (set_prop item ''url'' v) ''url'' = Inr v
       \<and> get_prop (set_prop item ''url'' v) ''label'' = Inr (JStr s)"
proof -
  from labelled_is_object[OF assms] obtain kvs where "item = JObj kvs" by blast
  with assms show ?thesis by (simp add: update_conv)
qed


lemma select_menu_cv_some:
  assumes "site_prop sd ''navigation'' = Inr nav" and "get_prop nav ''main_menu'' = Inr (JArr items)"
      and "find_home items = Inr (Some i)"
  shows "select_menu ''printable_cv.html'' sd =
     Inr (AList.update ''site''
            (set_prop (data sd ''site'') ''navigation''
               (set_prop nav ''main_menu''
                  (JArr (items[i := set_prop (items ! i) ''url'' home_target])))) sd,
          JArr (items[i := set_prop (items ! i) ''url'' home_target]))"
  using assms by (simp add: select_menu_def mainPages_def Let_def)

lemma get_set_prop:
  "get_prop b k = Inr v \<Longrightarrow> v \<noteq> Undefined \<Longrightarrow> get_prop (set_prop b k w) k = Inr w"
  by (cases b) (auto simp: update_conv split: option.splits)

lemma store_after_rewrite:
  assumes "site_prop sd ''navigation'' = Inr nav" and "get_prop nav ''main_menu'' = Inr (JArr items)"
  shows "site_prop (AList.update ''site''
            (set_prop (data sd ''site'') ''navigation'' (set_prop nav ''main_menu'' m)) sd)
           ''navigation'' = Inr (set_prop nav ''main_menu'' m)
       \<and> get_prop (set_prop nav ''main_menu'' m) ''main_menu'' = Inr m"
proof -
  from assms(2) have nav: "\<exists>kvs. nav = JObj kvs" by (cases nav) simp_all
  then have nav_ne: "nav \<noteq> Undefined" by auto
  have "get_prop (set_prop (data sd ''site'') ''navigation'' (set_prop nav ''main_menu'' m))
          ''navigation'' = Inr (set_prop nav ''main_menu'' m)"
    using assms(1) nav_ne unfolding site_prop_def by (rule get_set_prop)
  moreover have "get_prop (set_prop nav ''main_menu'' m) ''main_menu'' = Inr m"
    using assms(2) by (rule get_set_prop) simp
  ultimately show ?thesis by (simp add: site_prop_def data_def update_conv)
qed



lemma find_home_Some_iff:
  "find_home items = Inr (Some i) \<longleftrightarrow>
   i < length items \<and> label_starts_with_Home (items ! i) = Inr True
   \<and> (\<forall>j<i. label_starts_with_Home (items ! j) = Inr False)"
proof (induction items arbitrary: i)
  case Nil
  then show ?case by simp
next
  case (Cons item rest)
  show ?case
  proof (cases "label_starts_with_Home item")
    case (Inl err)
    then show ?thesis by (cases i) auto
  next
    case (Inr b)
    show ?thesis
    proof (cases b)
      case True
      with Inr show ?thesis by (cases i) auto
    next
      case False
      show ?thesis
      proof (cases i)
        case 0
        with Inr False show ?thesis by (auto split: sum.splits option.splits)
      next
        case (Suc k)
        have "find_home (item # rest) = Inr (Some (Suc k)) \<longleftrightarrow> find_home rest = Inr (Some k)"
          using Inr False by (auto split: sum.splits option.splits)
        also have "\<dots> \<longleftrightarrow> k < length rest \<and> label_starts_with_Home (rest ! k) = Inr True
            \<and> (\<forall>j<k. label_starts_with_Home (rest ! j) = Inr False)"
          by (rule Cons.IH)
        also have "\<dots> \<longleftrightarrow> Suc k < length (item # rest)
            \<and> label_starts_with_Home ((item # rest) ! Suc k) = Inr True
            \<and> (\<forall>j<Suc k. label_starts_with_Home ((item # rest) ! j) = Inr False)"
          using Inr False by (auto simp: less_Suc_eq_0_disj)
        finally show ?thesis using Suc by simp
      qed
    qed
  qed
qed










lemma select_menu_cv_rewrite:
  assumes nav: "site_prop sd ''navigation'' = Inr nav"
      and mm: "get_prop nav ''main_menu'' = Inr (JArr items)"
      and fh: "find_home items = Inr (Some i)"
  shows "\<exists>sd' nav' items'.
      select_menu ''printable_cv.html'' sd = Inr (sd', JArr items')
      \<and> sd' = AList.update ''site''
                (set_prop (data sd ''site'') ''navigation''
                   (set_prop nav ''main_menu''
                      (JArr (items[i := set_prop (items ! i) ''url'' home_target])))) sd
      \<and> site_prop sd' ''navigation'' = Inr nav'
      \<and> get_prop nav' ''main_menu'' = Inr (JArr items')
      \<and> length items' = length items
      \<and> get_prop (items' ! i) ''url'' = Inr home_target
      \<and> get_prop (items' ! i) ''label'' = get_prop (items ! i) ''label''
      \<and> (\<forall>j<length items. j \<noteq> i \<longrightarrow> items' ! j = items ! j)"
proof -
  let ?items' = "items[i := set_prop (items ! i) ''url'' home_target]"
  let ?nav' = "set_prop nav ''main_menu'' (JArr ?items')"
  let ?sd' = "AList.update ''site'' (set_prop (data sd ''site'') ''navigation'' ?nav') sd"
  from find_home_Some[OF fh] obtain s where
    i: "i < length items" and s: "get_prop (items ! i) ''label'' = Inr (JStr s)"
    by blast
  have sel: "select_menu ''printable_cv.html'' sd = Inr (?sd', JArr ?items')"
    using nav mm fh by (rule select_menu_cv_some)
  have st: "site_prop ?sd' ''navigation'' = Inr ?nav' \<and> get_prop ?nav' ''main_menu'' = Inr (JArr ?items')"
    using nav mm by (rule store_after_rewrite)
  have it: "get_prop (?items' ! i) ''url'' = Inr home_target
          \<and> get_prop (?items' ! i) ''label'' = get_prop (items ! i) ''label''"
    using set_url_props[OF s, of home_target] i s by simp
  have others: "\<forall>j<length items. j \<noteq> i \<longrightarrow> ?items' ! j = items ! j" by simp
  show ?thesis
    apply (rule exI[of _ ?sd'], rule exI[of _ ?nav'], rule exI[of _ ?items'])
    using sel st it others by simp
qed




section \<open>The store after population\<close>

lemma select_menu_store:
  assumes "select_menu fileName sd = Inr (sd', m)"
  shows "sd' = sd
       \<or> (\<exists>nav items i. fileName = ''printable_cv.html''
             \<and> site_prop sd ''navigation'' = Inr nav
             \<and> get_prop nav ''main_menu'' = Inr (JArr items) \<and> find_home items = Inr (Some i)
             \<and> sd' = AList.update ''site''
                  (set_prop (data sd ''site'') ''navigation''
                     (set_prop nav ''main_menu''
                        (JArr (items[i := set_prop (items ! i) ''url'' home_target])))) sd)"
  using assms
  by (auto simp: select_menu_def Let_def split: if_splits sum.splits js.splits option.splits)

lemma select_menu_store_other:
  "select_menu fileName sd = Inr (sd', m) \<Longrightarrow> fileName \<noteq> ''printable_cv.html'' \<Longrightarrow> sd' = sd"
  using select_menu_store by blast

lemma render_phase_store:
  "final_store (render_phase e p sd) =
     (case select_menu (final_segment p) sd of Inl err \<Rightarrow> sd | Inr (sd', m) \<Rightarrow> sd')"
  by (simp add: render_phase_def Let_def split: sum.splits prod.splits)

lemma initializeSite_store:
  assumes "loadAllData fetch order [] = (sd, evs)"
  shows "final_store (initializeSite e fetch order p) =
     (case select_menu (final_segment p) sd of Inl err \<Rightarrow> sd | Inr (sd', m) \<Rightarrow> sd')"
proof (cases "sd = []")
  case True
  then have "select_menu (final_segment p) sd = Inl TypeError"
    by (simp add: select_menu_no_site)
  with True assms show ?thesis by (simp add: initializeSite_def)
next
  case False
  with assms show ?thesis by (simp add: initializeSite_def Let_def render_phase_store)
qed

lemma site_key_present:
  assumes "site_prop sd ''navigation'' = Inr nav" and "get_prop nav ''main_menu'' = Inr (JArr items)"
  shows "''site'' \<in> fst ` set sd"
proof (cases "map_of sd ''site''")
  case None
  with assms(1) show ?thesis by (simp add: site_prop_def data_def)
next
  case (Some v)
  then show ?thesis by (meson domI dom_map_of_conv_image_fst[THEN equalityD1, THEN subsetD] domIff)
qed

lemma demo_load_site:
  "site_prop (fst (loadAllData demo_fetch_all JSON_FILES [])) ''navigation'' =
     Inr (JObj [(''main_menu'', demo_main_menu), (''details_menu'', demo_details_menu)])"
proof -
  obtain sd evs where ld: "loadAllData demo_fetch_all JSON_FILES [] = (sd, evs)"
    by (cases "loadAllData demo_fetch_all JSON_FILES []")
  have d: "\<forall>f\<in>set JSON_FILES. demo_fetch_all (BASE_DATA_PATH @ f) =
      Parsed ((\<lambda>f. if f = ''personal_info.json'' then demo_personal_info
                   else if f = ''site.json'' then demo_site else JObj []) f)"
    by (simp add: JSON_FILES_def demo_fetch_all_def BASE_DATA_PATH_def)
  have mem: "''site.json'' \<in> set JSON_FILES" by (simp add: JSON_FILES_def)
  have sd: "sd = store_all (\<lambda>f. if f = ''personal_info.json'' then demo_personal_info
                   else if f = ''site.json'' then demo_site else JObj []) JSON_FILES []"
    using settle_all_parsed[OF d, of "[]"] ld by (simp add: loadAllData_def)
  have site: "map_of sd ''site'' = Some demo_site"
    using store_all_lookup[OF baseName_inj mem, of _ "[]"]
    unfolding sd by (simp add: baseName_def)
  then show ?thesis using ld by (simp add: site_prop_def data_def demo_site_def)
qed

text \<open>
  Claim C4, as amended. The render calls get their data as arguments and none of them
  assigns to it (in the source the only assignments to anything but the page are the
  store write of \<open>loadAllData\<close> and \<open>homeItem.url = ...\<close> in the dispatcher), so
  the store after a page load is the one menu selection leaves. On \<open>printable_cv.html\<close>,
  when \<open>SITE_DATA.site.navigation.main_menu\<close> is an array and the search for the
  \<open>Home\<close> entry returns one (its label is a string that starts with \<open>Home\<close> and
  every entry before it has a string label that does not), the dispatcher overwrites
  the \<open>url\<close> of that entry inside the store with \<open>./index.html#about\<close>; the other
  entries of the menu and the label of that entry stay. In every other case (another
  page, or a search that returns nothing or throws) the store is the one \<open>loadAllData\<close>
  left. In every case the keys and their order stay, and so does every entry other
  than \<open>site\<close>.
\<close>

theorem store_changed_only_by_home_rewrite:
  assumes ld: "loadAllData fetch order [] = (sd, evs)"
  shows "(final_segment p = ''printable_cv.html'' \<longrightarrow>
            site_prop sd ''navigation'' = Inr nav \<longrightarrow>
            get_prop nav ''main_menu'' = Inr (JArr items) \<longrightarrow>
            find_home items = Inr (Some i) \<longrightarrow>
            final_store (initializeSite e fetch order p) =
              AList.update ''site''
                (set_prop (data sd ''site'') ''navigation''
                   (set_prop nav ''main_menu''
                      (JArr (items[i := set_prop (items ! i) ''url'' home_target])))) sd
            \<and> (\<exists>nav' items'.
                  site_prop (final_store (initializeSite e fetch order p)) ''navigation'' = Inr nav'
                  \<and> get_prop nav' ''main_menu'' = Inr (JArr items')
                  \<and> length items' = length items
                  \<and> get_prop (items' ! i) ''url'' = Inr home_target
                  \<and> get_prop (items' ! i) ''label'' = get_prop (items ! i) ''label''
                  \<and> (\<forall>j<length items. j \<noteq> i \<longrightarrow> items' ! j = items ! j)))
       \<and> (final_segment p \<noteq> ''printable_cv.html''
            \<longrightarrow> final_store (initializeSite e fetch order p) = sd)
       \<and> (\<not> (\<exists>nav items i. site_prop sd ''navigation'' = Inr nav
                \<and> get_prop nav ''main_menu'' = Inr (JArr items)
                \<and> find_home items = Inr (Some i))
            \<longrightarrow> final_store (initializeSite e fetch order p) = sd)
       \<and> (find_home items = Inr (Some i) \<longleftrightarrow>
            i < length items \<and> label_starts_with_Home (items ! i) = Inr True
            \<and> (\<forall>j<i. label_starts_with_Home (items ! j) = Inr False))
       \<and> (label_starts_with_Home item = Inr b \<longleftrightarrow>
            (\<exists>s. get_prop item ''label'' = Inr (JStr s) \<and> b = prefix ''Home'' s))
       \<and> (\<forall>k. k \<noteq> ''site''
            \<longrightarrow> map_of (final_store (initializeSite e fetch order p)) k = map_of sd k)
       \<and> map fst (final_store (initializeSite e fetch order p)) = map fst sd"
proof -
  let ?fs = "final_store (initializeSite e fetch order p)"
  have fs: "?fs = (case select_menu (final_segment p) sd of Inl err \<Rightarrow> sd | Inr (sd', m) \<Rightarrow> sd')"
    using ld by (rule initializeSite_store)
  have alt: "?fs = sd
       \<or> (\<exists>nav items i. final_segment p = ''printable_cv.html''
             \<and> site_prop sd ''navigation'' = Inr nav
             \<and> get_prop nav ''main_menu'' = Inr (JArr items) \<and> find_home items = Inr (Some i)
             \<and> ?fs = AList.update ''site''
                  (set_prop (data sd ''site'') ''navigation''
                     (set_prop nav ''main_menu''
                        (JArr (items[i := set_prop (items ! i) ''url'' home_target])))) sd)"
  proof (cases "select_menu (final_segment p) sd")
    case (Inl err)
    with fs show ?thesis by simp
  next
    case (Inr r)
    obtain sd' m where r: "r = (sd', m)" by (cases r)
    with Inr fs have "?fs = sd'" by simp
    with select_menu_store[OF Inr[unfolded r]] show ?thesis by simp
  qed
  have rewrite: "final_segment p = ''printable_cv.html'' \<longrightarrow>
            site_prop sd ''navigation'' = Inr nav \<longrightarrow>
            get_prop nav ''main_menu'' = Inr (JArr items) \<longrightarrow>
            find_home items = Inr (Some i) \<longrightarrow>
            ?fs = AList.update ''site''
                (set_prop (data sd ''site'') ''navigation''
                   (set_prop nav ''main_menu''
                      (JArr (items[i := set_prop (items ! i) ''url'' home_target])))) sd
            \<and> (\<exists>nav' items'.
                  site_prop ?fs ''navigation'' = Inr nav'
                  \<and> get_prop nav' ''main_menu'' = Inr (JArr items')
                  \<and> length items' = length items
                  \<and> get_prop (items' ! i) ''url'' = Inr home_target
                  \<and> get_prop (items' ! i) ''label'' = get_prop (items ! i) ''label''
                  \<and> (\<forall>j<length items. j \<noteq> i \<longrightarrow> items' ! j = items ! j))"
  proof (intro impI)
    assume cv: "final_segment p = ''printable_cv.html''"
      and nav: "site_prop sd ''navigation'' = Inr nav"
      and mm: "get_prop nav ''main_menu'' = Inr (JArr items)"
      and fh: "find_home items = Inr (Some i)"
    from select_menu_cv_rewrite[OF nav mm fh] obtain sd' nav' items' where
      sel: "select_menu ''printable_cv.html'' sd = Inr (sd', JArr items')"
      and sd': "sd' = AList.update ''site''
                (set_prop (data sd ''site'') ''navigation''
                   (set_prop nav ''main_menu''
                      (JArr (items[i := set_prop (items ! i) ''url'' home_target])))) sd"
      and rest: "site_prop sd' ''navigation'' = Inr nav'"
        "get_prop nav' ''main_menu'' = Inr (JArr items')"
        "length items' = length items"
        "get_prop (items' ! i) ''url'' = Inr home_target"
        "get_prop (items' ! i) ''label'' = get_prop (items ! i) ''label''"
        "\<forall>j<length items. j \<noteq> i \<longrightarrow> items' ! j = items ! j"
      by blast
    from fs cv sel have eq: "?fs = sd'" by simp
    show "?fs = AList.update ''site''
                (set_prop (data sd ''site'') ''navigation''
                   (set_prop nav ''main_menu''
                      (JArr (items[i := set_prop (items ! i) ''url'' home_target])))) sd
            \<and> (\<exists>nav' items'.
                  site_prop ?fs ''navigation'' = Inr nav'
                  \<and> get_prop nav' ''main_menu'' = Inr (JArr items')
                  \<and> length items' = length items
                  \<and> get_prop (items' ! i) ''url'' = Inr home_target
                  \<and> get_prop (items' ! i) ''label'' = get_prop (items ! i) ''label''
                  \<and> (\<forall>j<length items. j \<noteq> i \<longrightarrow> items' ! j = items ! j))"
      unfolding eq using sd' rest by blast
  qed
  have other: "final_segment p \<noteq> ''printable_cv.html'' \<longrightarrow> ?fs = sd"
    using alt by blast
  have nofind: "\<not> (\<exists>nav items i. site_prop sd ''navigation'' = Inr nav
                \<and> get_prop nav ''main_menu'' = Inr (JArr items)
                \<and> find_home items = Inr (Some i)) \<longrightarrow> ?fs = sd"
    using alt by blast
  have frame: "\<forall>k. k \<noteq> ''site'' \<longrightarrow> map_of ?fs k = map_of sd k"
    using alt by (auto simp: update_conv)
  have keys: "map fst ?fs = map fst sd"
    using alt site_key_present by (auto simp: update_keys)
  show ?thesis
    by (intro conjI rewrite other nofind frame keys find_home_Some_iff label_starts_with_Home_Inr)
qed

text \<open>Claim C4 as amended, at the sample server with all sixteen files, on
  \<open>/gallery.html\<close> and on \<open>/printable_cv.html\<close>.\<close>

theorem store_changed_only_by_home_rewrite_witness:
  "final_store (initializeSite demo_env demo_fetch_all JSON_FILES ''/gallery.html'')
     = fst (loadAllData demo_fetch_all JSON_FILES [])
   \<and> (\<exists>nav' items'.
         site_prop (final_store (initializeSite demo_env demo_fetch_all JSON_FILES
                                   ''/printable_cv.html'')) ''navigation'' = Inr nav'
         \<and> get_prop nav' ''main_menu'' = Inr (JArr items')
         \<and> get_prop (items' ! 0) ''url'' = Inr home_target)"
proof -
  let ?nav = "JObj [(''main_menu'', demo_main_menu), (''details_menu'', demo_details_menu)]"
  let ?items = "[JObj [(''label'', JStr ''Home''), (''url'', JStr ''#hero'')],
                 JObj [(''label'', JStr ''About''), (''url'', JStr ''#about'')]]"
  have ld: "loadAllData demo_fetch_all JSON_FILES [] =
      (fst (loadAllData demo_fetch_all JSON_FILES []), snd (loadAllData demo_fetch_all JSON_FILES []))"
    by simp
  have g: "final_segment ''/gallery.html'' \<noteq> ''printable_cv.html''"
    by (simp add: final_segment_def substring_def)
  have cv: "final_segment ''/printable_cv.html'' = ''printable_cv.html''"
    by (simp add: final_segment_def substring_def)
  have mm: "get_prop ?nav ''main_menu'' = Inr (JArr ?items)" by (simp add: demo_main_menu_def)
  have fh: "find_home ?items = Inr (Some 0)" by (simp add: label_starts_with_Home_def)
  have a: "final_store (initializeSite demo_env demo_fetch_all JSON_FILES ''/gallery.html'')
     = fst (loadAllData demo_fetch_all JSON_FILES [])"
    by (rule store_changed_only_by_home_rewrite[OF ld, where p = "''/gallery.html''"
          and e = demo_env, THEN conjunct2, THEN conjunct1, rule_format, OF g])
  from store_changed_only_by_home_rewrite[OF ld, where p = "''/printable_cv.html''"
      and e = demo_env and nav = ?nav and items = ?items and i = 0,
      THEN conjunct1, rule_format, OF cv demo_load_site mm fh]
  obtain nav' items' where
    "site_prop (final_store (initializeSite demo_env demo_fetch_all JSON_FILES
                               ''/printable_cv.html'')) ''navigation'' = Inr nav'"
    "get_prop nav' ''main_menu'' = Inr (JArr items')"
    "get_prop (items' ! 0) ''url'' = Inr home_target"
    by blast
  with a show ?thesis by blast
qed

text \<open>Claim C4 as stated fails on \<open>/printable_cv.html\<close> at the sample server with
  all sixteen files: the \<open>site\<close> entry after the dispatcher is not the one loaded.\<close>

theorem home_rewrite_changes_store_counterexample:
  "data (fst (loadAllData demo_fetch_all JSON_FILES [])) ''site'' = demo_site
   \<and> data (final_store (initializeSite demo_env demo_fetch_all JSON_FILES ''/printable_cv.html''))
       ''site'' = demo_site_cv
   \<and> demo_site_cv \<noteq> demo_site"
proof -
  obtain sd evs where ld: "loadAllData demo_fetch_all JSON_FILES [] = (sd, evs)"
    by (cases "loadAllData demo_fetch_all JSON_FILES []")
  have d: "\<forall>f\<in>set JSON_FILES. demo_fetch_all (BASE_DATA_PATH @ f) =
      Parsed ((\<lambda>f. if f = ''personal_info.json'' then demo_personal_info
                   else if f = ''site.json'' then demo_site else JObj []) f)"
    by (simp add: JSON_FILES_def demo_fetch_all_def BASE_DATA_PATH_def)
  have mem: "''site.json'' \<in> set JSON_FILES" by (simp add: JSON_FILES_def)
  have sd: "sd = store_all (\<lambda>f. if f = ''personal_info.json'' then demo_personal_info
                   else if f = ''site.json'' then demo_site else JObj []) JSON_FILES []"
    using settle_all_parsed[OF d, of "[]"] ld by (simp add: loadAllData_def)
  have site: "map_of sd ''site'' = Some demo_site"
    using store_all_lookup[OF baseName_inj mem, of _ "[]"]
    unfolding sd by (simp add: baseName_def)
  have a: "data sd ''site'' = demo_site" using site by (simp add: data_def)
  have fsg: "final_segment ''/printable_cv.html'' = ''printable_cv.html''"
    by (simp add: final_segment_def substring_def)
  have sm: "select_menu ''printable_cv.html'' sd =
      Inr (AList.update ''site'' demo_site_cv sd,
           JArr [JObj [(''label'', JStr ''Home''), (''url'', JStr ''./index.html#about'')],
                 JObj [(''label'', JStr ''About''), (''url'', JStr ''#about'')]])"
    by (simp add: select_menu_def mainPages_def site_prop_def a demo_site_def demo_main_menu_def
        label_starts_with_Home_def Let_def home_target_def demo_site_cv_def)
  have b: "data (final_store (initializeSite demo_env demo_fetch_all JSON_FILES ''/printable_cv.html''))
       ''site'' = demo_site_cv"
    by (simp add: initializeSite_store[OF ld] fsg sm data_def update_conv)
  have c: "demo_site_cv \<noteq> demo_site"
    by (simp add: demo_site_cv_def demo_site_def demo_main_menu_def)
  from a b c ld show ?thesis by simp
qed

section \<open>The re-initialisation hooks\<close>

lemma run_steps_append:
  "run_steps e xs = (evs, None) \<Longrightarrow>
   run_steps e (xs @ ys) = (evs @ fst (run_steps e ys), snd (run_steps e ys))"
proof (induction xs arbitrary: evs)
  case Nil
  then show ?case by simp
next
  case (Cons x xs)
  show ?case
  proof (cases x)
    case (Inl err)
    with Cons.prems show ?thesis by simp
  next
    case (Inr ev)
    with Cons.prems obtain evs' where
      t: "throws e ev = None" and r: "run_steps e xs = (evs', None)" and evs: "evs = ev # evs'"
      by (auto split: option.splits prod.splits)
    from Cons.IH[OF r] Inr t evs show ?thesis by (simp add: case_prod_beta)
  qed
qed

lemma hook_all: "(\<forall>h. P h) \<longleftrightarrow> P InitTypedAnimation \<and> P InitAOS \<and> P InitPureCounter"
  by (metis hook.exhaust)

lemma reinit_run:
  assumes "\<forall>h. \<not> hook_throws e h"
  shows "run_steps e (reinit_libraries e) = (map projr (reinit_libraries e), None)"
  using assms by (simp add: reinit_libraries_def)

lemma reinit_hook_calls:
  "HookCall h \<in> set (map projr (reinit_libraries e)) \<longleftrightarrow> hook_defined e h"
  by (cases h) (auto simp: reinit_libraries_def)

lemma reinit_console:
  "console_of (map projr (reinit_libraries e)) =
     (if hook_defined e InitTypedAnimation then [ConsoleLog typed_found]
      else [ConsoleLog typed_not_found, ConsoleWarn typed_warning])"
  by (simp add: reinit_libraries_def)

text \<open>
  Claim C9, as amended. When menu selection and every render call of the page have
  completed, and the hooks that get called return, the run goes on with the hook block
  and ends without an exception, whichever hooks are there: each of
  \<open>initTypedAnimation\<close>, \<open>initAOS\<close> and \<open>initPureCounter\<close> is called exactly when it is
  a function of the global environment. The console output of the block depends on
  \<open>initTypedAnimation\<close> alone: one log line when it is there, a log line and a warning
  when it is missing. A missing \<open>initAOS\<close> or \<open>initPureCounter\<close> is skipped without
  a word.
\<close>

theorem hooks_invoked_iff_defined:
  assumes hooks_return: "\<forall>h. \<not> hook_throws e h"
      and sel: "select_menu (final_segment p) sd = Inr (sd', m)"
      and rendered: "run_steps e (common_calls sd' m @ page_sections (final_segment p) sd')
                       = (cevs, None)"
  shows "\<exists>hevs. trace (render_phase e p sd) =
             ConsoleLog ''Rendering site with loaded data...'' # cevs @ hevs
               @ [ConsoleLog ''Dynamic rendering complete.'']
           \<and> thrown (render_phase e p sd) = None
           \<and> (\<forall>h. HookCall h \<in> set hevs \<longleftrightarrow> hook_defined e h)
           \<and> console_of hevs =
               (if hook_defined e InitTypedAnimation then [ConsoleLog typed_found]
                else [ConsoleLog typed_not_found, ConsoleWarn typed_warning])"
proof -
  let ?hevs = "map projr (reinit_libraries e)"
  have h: "run_steps e (reinit_libraries e @ [Inr (ConsoleLog ''Dynamic rendering complete.'')])
      = (?hevs @ [ConsoleLog ''Dynamic rendering complete.''], None)"
    using run_steps_append[OF reinit_run[OF hooks_return],
        of "[Inr (ConsoleLog ''Dynamic rendering complete.'')]"] by simp
  have all: "run_steps e (common_calls sd' m @ page_sections (final_segment p) sd'
        @ reinit_libraries e @ [Inr (ConsoleLog ''Dynamic rendering complete.'')])
      = (cevs @ ?hevs @ [ConsoleLog ''Dynamic rendering complete.''], None)"
    using run_steps_append[OF rendered,
        of "reinit_libraries e @ [Inr (ConsoleLog ''Dynamic rendering complete.'')]"] h
    by simp
  have tr: "trace (render_phase e p sd) =
      ConsoleLog ''Rendering site with loaded data...'' # cevs @ ?hevs
        @ [ConsoleLog ''Dynamic rendering complete.'']"
    and th: "thrown (render_phase e p sd) = None"
    using sel all by (simp_all add: render_phase_def Let_def)
  show ?thesis
    apply (rule exI[of _ ?hevs])
    using tr th reinit_hook_calls[of _ e] reinit_console[of e] by simp
qed

text \<open>Claim C9 as amended, at the sample store and page, on \<open>/index.html\<close>.\<close>

theorem hooks_invoked_iff_defined_witness:
  "thrown (render_phase demo_env ''/index.html'' demo_store) = None
   \<and> HookCall InitTypedAnimation \<in> set (trace (render_phase demo_env ''/index.html'' demo_store))"
proof -
  have hr: "\<forall>h. \<not> hook_throws demo_env h" by (simp add: demo_env_def)
  have fs: "final_segment ''/index.html'' = ''index.html''"
    by (simp add: final_segment_def substring_def)
  have sel: "select_menu (final_segment ''/index.html'') demo_store = Inr (demo_store, demo_main_menu)"
    unfolding fs
    by (simp add: select_menu_def mainPages_def site_prop_def data_def demo_store_def demo_site_def)
  have rendered: "run_steps demo_env
       (common_calls demo_store demo_main_menu
        @ page_sections (final_segment ''/index.html'') demo_store) =
     (map projr (common_calls demo_store demo_main_menu
                 @ page_sections ''index.html'' demo_store), None)"
    unfolding fs
    by (simp add: common_calls_def page_sections_def index_sections_def call1_def site_prop_def
        data_def demo_store_def demo_site_def demo_env_def)
  from hooks_invoked_iff_defined[OF hr sel rendered] obtain hevs where
    tr: "trace (render_phase demo_env ''/index.html'' demo_store) =
           ConsoleLog ''Rendering site with loaded data...''
           # map projr (common_calls demo_store demo_main_menu
                        @ page_sections ''index.html'' demo_store)
           @ hevs @ [ConsoleLog ''Dynamic rendering complete.'']"
    and th: "thrown (render_phase demo_env ''/index.html'' demo_store) = None"
    and hk: "\<forall>h. HookCall h \<in> set hevs \<longleftrightarrow> hook_defined demo_env h"
    by blast
  have "hook_defined demo_env InitTypedAnimation" by (simp add: demo_env_def)
  with hk have "HookCall InitTypedAnimation \<in> set hevs" by blast
  then have "HookCall InitTypedAnimation \<in> set (trace (render_phase demo_env ''/index.html'' demo_store))"
    unfolding tr by simp
  with th show ?thesis by (rule conjI)
qed

text \<open>Claim C9 as stated fails on the sample page, where \<open>initAOS\<close> and
  \<open>initPureCounter\<close> are missing: the hook block logs the line about
  \<open>initTypedAnimation\<close>, calls it, and logs nothing about the two missing hooks.\<close>

theorem missing_hooks_not_logged_counterexample:
  "\<not> hook_defined demo_env InitAOS \<and> \<not> hook_defined demo_env InitPureCounter
   \<and> run_steps demo_env (reinit_libraries demo_env)
       = ([ConsoleLog typed_found, HookCall InitTypedAnimation], None)"
  by (simp add: demo_env_def reinit_libraries_def)

section \<open>Renderers that throw\<close>

text \<open>
  Claim C6 at its three named inputs. \<open>renderHeader\<close> with a \<open>siteData\<close> that has no
  \<open>assets\<close> reads \<open>siteData.assets.images\<close> and throws a \<open>TypeError\<close>. \<open>renderHero\<close>
  on a page whose \<open>#hero\<close> holds no \<open>h2\<close> assigns to
  \<open>hero.querySelector('h2').textContent\<close> and throws. \<open>renderAbout\<close> with a
  \<open>profile_summary\<close> that has no \<open>key_points_left\<close> calls \<open>map\<close> on \<open>undefined\<close> and
  throws, once the list element is found.
\<close>

theorem unguarded_reads_throw:
  "snd (renderHeader
          \<lparr>hdr_sitename = True, hdr_profile_img = True, hdr_logo_img = True,
           hdr_social_links = True\<rparr>
          (JObj [(''name'', JStr ''A'')])
          (JObj [(''social_links'', JArr [])])) = Some TypeError
   \<and> snd (renderHero
          \<lparr>hero_section = True, hero_h2 = False, hero_typed = True, hero_paragraphs = 3\<rparr>
          (JObj [(''hero'', JObj [(''title_main'', JStr ''T'')])])) = Some TypeError
   \<and> snd (renderAbout
          \<lparr>about_section = True, about_profile_img = True, about_summary = True,
           about_title_h2 = True, about_intro_p = True, about_left_list = True,
           about_right_list = True, about_research_area = True, about_full_title = True,
           about_full_content = True\<rparr>
          demo_store
          (JObj [(''profile_summary'', JObj [(''title'', JStr ''Summary'')])])) = Some TypeError"
  by (simp add: renderHeader_def renderHero_def renderAbout_def then_do_def skip_def raise_def
      key_points_def array_items_def site_prop_def data_def demo_store_def demo_site_def
      demo_assets_def)

end
